theory Spec2Isabelle
  imports Complex_Main
begin

section \<open>Sound de-duplication gate (sounds/windowsXPSounds.js, sounds/SoundManager.js)\<close>

text \<open>
  The two sound scripts keep their per-window state in the \<^verbatim>\<open>dataset\<close> of the window's
  DOM element and undo every marker with \<^verbatim>\<open>setTimeout\<close>.  The model is a page state that is
  passed explicitly: the window elements (addressed by a handle, the element's identity),
  the two sound managers, the flags of \<^verbatim>\<open>setupWindowsSounds\<close>, a clock in milliseconds, the
  queue of pending timers and a log of the sounds that were really started.

  A dataset entry is \<open>None\<close> when the attribute is absent (JavaScript \<^verbatim>\<open>undefined\<close>) and
  \<open>Some v\<close> when it holds the string \<open>v\<close>; the scripts write \<^verbatim>\<open>'true'\<close> and \<^verbatim>\<open>''\<close>.
\<close>

type_synonym handle = nat

record window_element =
  element_id :: string
  classList :: "string list"
  style_display :: string
  soundPlayed :: "string option"
  initialWindow :: "string option"
  closingInProgress :: "string option"
  criticalSoundPlayed :: "string option"

text \<open>
  An \<^verbatim>\<open>Audio\<close> element is outside the repository.  All the scripts need of it is whether
  the statements of the \<^verbatim>\<open>try\<close> block (\<^verbatim>\<open>pause\<close>, setting \<^verbatim>\<open>currentTime\<close> and
  \<^verbatim>\<open>volume\<close>, \<^verbatim>\<open>play\<close>) run through or throw, in which case \<^verbatim>\<open>play\<close> returns false.
  One throw depends on the argument and not on the element: the assignment
  \<^verbatim>\<open>sound.volume = volume\<close> raises an \<^verbatim>\<open>IndexSizeError\<close> for a volume outside the interval
  from 0 to 1, whatever the element.  \<open>Throwing\<close> stands for an element on which one of the
  other statements throws.  Volumes are real numbers.
\<close>

datatype audio = Working | Throwing

text \<open>The callbacks handed to \<^verbatim>\<open>setTimeout\<close>, one constructor for each closure of the source.\<close>

datatype callback =
    XP_ClearClosing handle
  | SM_ClearClosing handle
  | ClearSoundPlayed handle
  | XP_DeleteActive string
  | SM_DeleteActive string
  | ResetCloseFlags
  | ResetRecentAction
  | ClearInitialFlags

record page =
  clock :: nat
  timers :: "(nat \<times> callback) list"
  elements :: "handle \<Rightarrow> window_element"
  document_windows :: "handle list"
  played :: "(string \<times> real) list"
  xp_present :: bool
  xp_sounds :: "string \<Rightarrow> audio option"
  xp_enabled :: bool
  xp_activeWindows :: "string set"
  preventAllSounds :: bool
  recentWindowControlAction :: bool
  lastSoundWindow :: "string option"
  sm_sounds :: "string \<Rightarrow> audio option"
  sm_enabled :: bool
  sm_activeWindows :: "string set"

definition update_element :: "handle \<Rightarrow> (window_element \<Rightarrow> window_element) \<Rightarrow> page \<Rightarrow> page" where
  "update_element h f s = s\<lparr>elements := (elements s)(h := f (elements s h))\<rparr>"

text \<open>\<^verbatim>\<open>setTimeout(cb, delay)\<close>: the callback is queued with its due time.\<close>

definition setTimeout :: "callback \<Rightarrow> nat \<Rightarrow> page \<Rightarrow> page" where
  "setTimeout cb delay s = s\<lparr>timers := timers s @ [(clock s + delay, cb)]\<rparr>"

subsection \<open>window.soundManager of windowsXPSounds.js\<close>

text \<open>
  \<^verbatim>\<open>soundManager.play\<close> (windowsXPSounds.js, lines 31-67).  The guard is written as in the
  source: the outer test, then the two inner returns.
\<close>

definition xp_play :: "string \<Rightarrow> real \<Rightarrow> page \<Rightarrow> bool \<times> page" where
  "xp_play soundName volume s =
     (if (\<not> xp_enabled s \<or> preventAllSounds s) \<and> preventAllSounds s \<and> soundName \<noteq> ''critical''
      then (False, s)
      else if (\<not> xp_enabled s \<or> preventAllSounds s) \<and> \<not> xp_enabled s
      then (False, s)
      else (case xp_sounds s soundName of
              None \<Rightarrow> (False, s)
            | Some Throwing \<Rightarrow> (False, s)
            | Some Working \<Rightarrow>
                if 0 \<le> volume \<and> volume \<le> 1
                then (True, s\<lparr>played := played s @ [(soundName, volume)]\<rparr>)
                else (False, s)))"

definition xp_addActiveWindow :: "string \<Rightarrow> page \<Rightarrow> page" where
  "xp_addActiveWindow windowId s =
     setTimeout (XP_DeleteActive windowId) 1000
       (s\<lparr>xp_activeWindows := insert windowId (xp_activeWindows s)\<rparr>)"

definition xp_isWindowActive :: "string \<Rightarrow> page \<Rightarrow> bool" where
  "xp_isWindowActive windowId s = (windowId \<in> xp_activeWindows s)"

text \<open>
  \<^verbatim>\<open>playSoundForWindow\<close> (windowsXPSounds.js, lines 130-185).  The block for the
  \<^verbatim>\<open>critical\<close> sound either returns false early (\<open>Inl\<close>) or falls through to the rest of
  the function (\<open>Inr\<close>) with the markers it has set.
\<close>

definition playSoundForWindow :: "handle \<Rightarrow> string \<Rightarrow> real \<Rightarrow> nat \<Rightarrow> page \<Rightarrow> bool \<times> page" where
  "playSoundForWindow h soundName volume duration s =
     (case (if soundName = ''critical'' then
              (let s1 = update_element h (\<lambda>w. w\<lparr>initialWindow := Some ''''\<rparr>) s;
                   s2 = (if soundPlayed (elements s1 h) = Some ''true''
                         then update_element h (\<lambda>w. w\<lparr>soundPlayed := Some ''''\<rparr>) s1 else s1)
               in if closingInProgress (elements s2 h) = Some ''true'' then Inl s2
                  else Inr (setTimeout (XP_ClearClosing h) 1500
                         (update_element h (\<lambda>w. w\<lparr>closingInProgress := Some ''true''\<rparr>) s2)))
            else Inr s) of
        Inl s' \<Rightarrow> (False, s')
      | Inr s' \<Rightarrow>
          (if element_id (elements s' h) \<noteq> [] \<and> xp_isWindowActive (element_id (elements s' h)) s'
              \<and> soundName \<noteq> ''critical''
           then (False, s')
           else
             (let (result, s1) = xp_play soundName volume s';
                  s2 = (if element_id (elements s1 h) \<noteq> []
                        then (xp_addActiveWindow (element_id (elements s1 h)) s1)
                               \<lparr>lastSoundWindow := Some (element_id (elements s1 h))\<rparr>
                        else s1);
                  s3 = update_element h (\<lambda>w. w\<lparr>soundPlayed := Some ''true''\<rparr>) s2;
                  s4 = setTimeout (ClearSoundPlayed h) duration s3
              in (result, s4))))"

subsection \<open>The SoundManager class of SoundManager.js\<close>

text \<open>
  \<^verbatim>\<open>SoundManager.play\<close> (lines 200-230): disabled sounds return false; a sound that the
  global \<^verbatim>\<open>window.soundManager\<close> knows is delegated to it; otherwise the manager's own
  audio element is used.
\<close>

definition sm_play :: "string \<Rightarrow> real \<Rightarrow> page \<Rightarrow> bool \<times> page" where
  "sm_play soundName volume s =
     (if \<not> sm_enabled s then (False, s)
      else if xp_present s \<and> xp_sounds s soundName \<noteq> None then xp_play soundName volume s
      else (case sm_sounds s soundName of
              None \<Rightarrow> (False, s)
            | Some Throwing \<Rightarrow> (False, s)
            | Some Working \<Rightarrow>
                if 0 \<le> volume \<and> volume \<le> 1
                then (True, s\<lparr>played := played s @ [(soundName, volume)]\<rparr>)
                else (False, s)))"

definition sm_addActiveWindow :: "string \<Rightarrow> page \<Rightarrow> page" where
  "sm_addActiveWindow windowId s =
     (if windowId = [] then s
      else setTimeout (SM_DeleteActive windowId) 1000
             (s\<lparr>sm_activeWindows := insert windowId (sm_activeWindows s)\<rparr>))"

definition sm_isWindowActive :: "string \<Rightarrow> page \<Rightarrow> bool" where
  "sm_isWindowActive windowId s = (windowId \<noteq> [] \<and> windowId \<in> sm_activeWindows s)"

text \<open>
  \<^verbatim>\<open>SoundManager.playForWindow\<close> (lines 119-192).  The window argument is \<open>None\<close> for a
  \<^verbatim>\<open>null\<close> or \<^verbatim>\<open>undefined\<close> element.
\<close>

definition playForWindow :: "handle option \<Rightarrow> string \<Rightarrow> real \<Rightarrow> nat \<Rightarrow> page \<Rightarrow> bool \<times> page" where
  "playForWindow windowElement soundName volume duration s =
     (case windowElement of
        None \<Rightarrow> sm_play soundName volume s
      | Some h \<Rightarrow>
         (let windowId = element_id (elements s h) in
          case (if soundName = ''windowClose'' \<or> soundName = ''critical'' then
                  (let s1 = update_element h (\<lambda>w. w\<lparr>initialWindow := Some ''''\<rparr>) s;
                       s2 = (if soundPlayed (elements s1 h) = Some ''true''
                             then update_element h (\<lambda>w. w\<lparr>soundPlayed := Some ''''\<rparr>) s1 else s1)
                   in if closingInProgress (elements s2 h) = Some ''true'' then Inl s2
                      else if xp_present s2 \<and> soundName = ''windowClose''
                              \<and> criticalSoundPlayed (elements s2 h) = Some ''true'' then Inl s2
                      else
                        (let s3 = update_element h (\<lambda>w. w\<lparr>closingInProgress := Some ''true''\<rparr>) s2;
                             s4 = (if soundName = ''critical''
                                   then update_element h (\<lambda>w. w\<lparr>criticalSoundPlayed := Some ''true''\<rparr>) s3
                                   else s3)
                         in Inr (setTimeout (SM_ClearClosing h) 1500 s4)))
                else Inr s) of
            Inl s' \<Rightarrow> (False, s')
          | Inr s' \<Rightarrow>
              (if windowId \<noteq> [] \<and> sm_isWindowActive windowId s'
                  \<and> soundName \<noteq> ''windowClose'' \<and> soundName \<noteq> ''critical''
               then (False, s')
               else
                 (let (result, s1) = sm_play soundName volume s';
                      s2 = (if windowId \<noteq> [] then sm_addActiveWindow windowId s1 else s1);
                      s3 = update_element h (\<lambda>w. w\<lparr>soundPlayed := Some ''true''\<rparr>) s2;
                      s4 = setTimeout (ClearSoundPlayed h) duration s3
                  in (result, s4)))))"

subsection \<open>Event handlers of setupWindowsSounds\<close>

text \<open>
  The marking loop at the start of \<^verbatim>\<open>setupWindowsSounds\<close> (lines 105-112) and the timer that
  clears the marks (lines 115-127).  \<^verbatim>\<open>querySelectorAll\<close> yields the matching windows of the
  document, in document order.
\<close>

definition mark_initial :: "handle \<Rightarrow> page \<Rightarrow> page" where
  "mark_initial h s =
     (if style_display (elements s h) \<noteq> ''none''
      then update_element h (\<lambda>w. w\<lparr>soundPlayed := Some ''true'', initialWindow := Some ''true''\<rparr>) s
      else s)"

definition setupWindowsSounds :: "page \<Rightarrow> page" where
  "setupWindowsSounds s =
     setTimeout ClearInitialFlags 3000
       (fold mark_initial
          (filter (\<lambda>h. ''window'' \<in> set (classList (elements s h))
                        \<and> ''minimized'' \<notin> set (classList (elements s h)))
                  (document_windows s)) s)"

definition clear_initial :: "handle \<Rightarrow> page \<Rightarrow> page" where
  "clear_initial h s =
     setTimeout (ClearSoundPlayed h) 500
       (update_element h (\<lambda>w. w\<lparr>initialWindow := Some ''''\<rparr>) s)"

text \<open>The callbacks of the timers (the closures passed to \<^verbatim>\<open>setTimeout\<close>).\<close>

fun fire :: "callback \<Rightarrow> page \<Rightarrow> page" where
  "fire (XP_ClearClosing h) s = update_element h (\<lambda>w. w\<lparr>closingInProgress := Some ''''\<rparr>) s"
| "fire (SM_ClearClosing h) s =
     update_element h (\<lambda>w. w\<lparr>closingInProgress := Some '''', criticalSoundPlayed := Some ''''\<rparr>) s"
| "fire (ClearSoundPlayed h) s = update_element h (\<lambda>w. w\<lparr>soundPlayed := Some ''''\<rparr>) s"
| "fire (XP_DeleteActive windowId) s = s\<lparr>xp_activeWindows := xp_activeWindows s - {windowId}\<rparr>"
| "fire (SM_DeleteActive windowId) s = s\<lparr>sm_activeWindows := sm_activeWindows s - {windowId}\<rparr>"
| "fire ResetCloseFlags s = s\<lparr>recentWindowControlAction := False, preventAllSounds := False\<rparr>"
| "fire ResetRecentAction s = s\<lparr>recentWindowControlAction := False\<rparr>"
| "fire ClearInitialFlags s =
     fold clear_initial
       (filter (\<lambda>h. ''window'' \<in> set (classList (elements s h))
                     \<and> initialWindow (elements s h) = Some ''true'')
               (document_windows s)) s"

text \<open>The click handler of a window's close button (lines 192-218).\<close>

definition closeButton_click :: "handle \<Rightarrow> page \<Rightarrow> page" where
  "closeButton_click h s =
     (let s1 = (if initialWindow (elements s h) = Some ''true''
                then update_element h (\<lambda>w. w\<lparr>initialWindow := Some '''', soundPlayed := Some ''''\<rparr>) s
                else s);
          s2 = s1\<lparr>recentWindowControlAction := True, preventAllSounds := True\<rparr>;
          s3 = snd (playSoundForWindow h ''critical'' 0.6 2000 s2)
      in setTimeout ResetCloseFlags 1000 s3)"

text \<open>The click handlers of the maximize and minimize buttons (lines 225-242 and 249-266).\<close>

definition maximizeButton_click :: "handle \<Rightarrow> page \<Rightarrow> page" where
  "maximizeButton_click h s =
     (let s1 = update_element h (\<lambda>w. w\<lparr>initialWindow := Some ''''\<rparr>) s;
          s2 = s1\<lparr>recentWindowControlAction := True\<rparr>;
          s3 = snd (playSoundForWindow h ''exclamation'' 0.6 1000 s2)
      in setTimeout ResetRecentAction 500 s3)"

definition minimizeButton_click :: "handle \<Rightarrow> page \<Rightarrow> page" where
  "minimizeButton_click h s =
     (let s1 = update_element h (\<lambda>w. w\<lparr>initialWindow := Some ''''\<rparr>) s;
          s2 = s1\<lparr>recentWindowControlAction := True\<rparr>;
          s3 = snd (playSoundForWindow h ''minimize'' 0.6 1000 s2)
      in setTimeout ResetRecentAction 500 s3)"




subsection \<open>The timer queue\<close>

text \<open>
  The browser runs the pending callback with the smallest due time, and among equal due
  times the one registered first.  \<open>run_until T\<close> lets the time pass up to \<open>T\<close>: it runs
  every callback that is due by then, including those that the callbacks register
  themselves, and leaves the clock at \<open>T\<close>.
\<close>

fun earliest :: "(nat \<times> callback) list \<Rightarrow> (nat \<times> callback) option" where
  "earliest [] = None"
| "earliest (t # ts) =
     (case earliest ts of
        None \<Rightarrow> Some t
      | Some u \<Rightarrow> if fst u < fst t then Some u else Some t)"

definition due_timer :: "nat \<Rightarrow> page \<Rightarrow> (nat \<times> callback) option" where
  "due_timer T s =
     (case earliest (timers s) of
        None \<Rightarrow> None
      | Some t \<Rightarrow> if fst t \<le> T then Some t else None)"

definition run_timer :: "nat \<times> callback \<Rightarrow> page \<Rightarrow> page" where
  "run_timer t s = fire (snd t) (s\<lparr>clock := max (clock s) (fst t), timers := remove1 t (timers s)\<rparr>)"

definition timer_weight :: "page \<Rightarrow> nat \<times> callback \<Rightarrow> nat" where
  "timer_weight s t = (if snd t = ClearInitialFlags then Suc (Suc (length (document_windows s))) else 1)"

definition pending_weight :: "page \<Rightarrow> nat" where
  "pending_weight s = sum_list (map (timer_weight s) (timers s))"

lemma update_element_simps [simp]:
  "elements (update_element h f s) = (elements s)(h := f (elements s h))"
  "timers (update_element h f s) = timers s"
  "clock (update_element h f s) = clock s"
  "document_windows (update_element h f s) = document_windows s"
  "played (update_element h f s) = played s"
  "xp_present (update_element h f s) = xp_present s"
  "xp_sounds (update_element h f s) = xp_sounds s"
  "xp_enabled (update_element h f s) = xp_enabled s"
  "xp_activeWindows (update_element h f s) = xp_activeWindows s"
  "preventAllSounds (update_element h f s) = preventAllSounds s"
  "recentWindowControlAction (update_element h f s) = recentWindowControlAction s"
  "lastSoundWindow (update_element h f s) = lastSoundWindow s"
  "sm_sounds (update_element h f s) = sm_sounds s"
  "sm_enabled (update_element h f s) = sm_enabled s"
  "sm_activeWindows (update_element h f s) = sm_activeWindows s"
  by (simp_all add: update_element_def)

lemma setTimeout_simps [simp]:
  "elements (setTimeout cb d s) = elements s"
  "timers (setTimeout cb d s) = timers s @ [(clock s + d, cb)]"
  "clock (setTimeout cb d s) = clock s"
  "document_windows (setTimeout cb d s) = document_windows s"
  "played (setTimeout cb d s) = played s"
  "xp_present (setTimeout cb d s) = xp_present s"
  "xp_sounds (setTimeout cb d s) = xp_sounds s"
  "xp_enabled (setTimeout cb d s) = xp_enabled s"
  "xp_activeWindows (setTimeout cb d s) = xp_activeWindows s"
  "preventAllSounds (setTimeout cb d s) = preventAllSounds s"
  "recentWindowControlAction (setTimeout cb d s) = recentWindowControlAction s"
  "lastSoundWindow (setTimeout cb d s) = lastSoundWindow s"
  "sm_sounds (setTimeout cb d s) = sm_sounds s"
  "sm_enabled (setTimeout cb d s) = sm_enabled s"
  "sm_activeWindows (setTimeout cb d s) = sm_activeWindows s"
  by (simp_all add: setTimeout_def)

lemma clear_initial_simps [simp]:
  "timers (clear_initial h s) = timers s @ [(clock s + 500, ClearSoundPlayed h)]"
  "clock (clear_initial h s) = clock s"
  "document_windows (clear_initial h s) = document_windows s"
  by (simp_all add: clear_initial_def)

lemma fold_clear_initial_timers:
  "timers (fold clear_initial hs s) = timers s @ map (\<lambda>h. (clock s + 500, ClearSoundPlayed h)) hs"
  by (induction hs arbitrary: s) simp_all

lemma fold_clear_initial_document:
  "document_windows (fold clear_initial hs s) = document_windows s"
  by (induction hs arbitrary: s) simp_all

lemma fire_document: "document_windows (fire cb s) = document_windows s"
  by (cases cb) (simp_all add: fold_clear_initial_document)

lemma fire_timers_other:
  "cb \<noteq> ClearInitialFlags \<Longrightarrow> timers (fire cb s) = timers s"
  by (cases cb) simp_all

lemma earliest_mem: "earliest ts = Some t \<Longrightarrow> t \<in> set ts"
  by (induction ts arbitrary: t) (auto split: option.splits if_splits)

lemma sum_list_remove1_weight:
  "t \<in> set ts \<Longrightarrow> sum_list (map f (remove1 t ts)) + f t = sum_list (map f ts)"
  for f :: "nat \<times> callback \<Rightarrow> nat"
  by (induction ts) auto

lemma timer_weight_cong:
  "document_windows s' = document_windows s \<Longrightarrow> timer_weight s' = timer_weight s"
  by (rule ext) (simp add: timer_weight_def)

lemma run_timer_decreases:
  assumes "due_timer T s = Some t"
  shows "pending_weight (run_timer t s) < pending_weight s"
proof -
  from assms have mem: "t \<in> set (timers s)"
    by (auto simp: due_timer_def dest: earliest_mem split: option.splits if_splits)
  let ?s0 = "s\<lparr>clock := max (clock s) (fst t), timers := remove1 t (timers s)\<rparr>"
  have w: "timer_weight (fire (snd t) ?s0) = timer_weight s"
    by (rule timer_weight_cong) (simp add: fire_document)
  have split: "sum_list (map (timer_weight s) (remove1 t (timers s))) + timer_weight s t
      = sum_list (map (timer_weight s) (timers s))"
    using mem by (rule sum_list_remove1_weight)
  show ?thesis
  proof (cases "snd t = ClearInitialFlags")
    case True
    let ?hs = "filter (\<lambda>h. ''window'' \<in> set (classList (elements ?s0 h))
                     \<and> initialWindow (elements ?s0 h) = Some ''true'') (document_windows ?s0)"
    have "timers (fire (snd t) ?s0)
        = remove1 t (timers s) @ map (\<lambda>h. (clock ?s0 + 500, ClearSoundPlayed h)) ?hs"
      using True by (simp add: fold_clear_initial_timers)
    then have "pending_weight (run_timer t s)
        = sum_list (map (timer_weight s) (remove1 t (timers s))) + length ?hs"
      unfolding pending_weight_def run_timer_def w
      by (simp add: timer_weight_def o_def sum_list_triv)
    moreover have "length ?hs \<le> length (document_windows s)"
      by (simp add: le_trans [OF length_filter_le])
    moreover have "timer_weight s t = Suc (Suc (length (document_windows s)))"
      using True by (simp add: timer_weight_def)
    ultimately show ?thesis
      using split unfolding pending_weight_def by linarith
  next
    case False
    then have "timers (fire (snd t) ?s0) = remove1 t (timers s)"
      by (simp add: fire_timers_other)
    then have "pending_weight (run_timer t s) = sum_list (map (timer_weight s) (remove1 t (timers s)))"
      unfolding pending_weight_def run_timer_def w by simp
    moreover have "timer_weight s t = 1"
      using False by (simp add: timer_weight_def)
    ultimately show ?thesis
      using split unfolding pending_weight_def by linarith
  qed
qed

function run_until :: "nat \<Rightarrow> page \<Rightarrow> page" where
  "run_until T s =
     (case due_timer T s of
        None \<Rightarrow> s\<lparr>clock := max (clock s) T\<rparr>
      | Some t \<Rightarrow> run_until T (run_timer t s))"
  by pat_completeness auto
termination
  by (relation "measure (\<lambda>(T, s). pending_weight s)") (simp_all add: run_timer_decreases)

declare run_until.simps [simp del]

definition advance :: "nat \<Rightarrow> page \<Rightarrow> page" where
  "advance dt s = run_until (clock s + dt) s"

subsection \<open>Vocabulary of the statements on the sound gate\<close>

text \<open>
  \<open>plays_xp\<close> and \<open>plays_sm\<close> say when \<^verbatim>\<open>window.soundManager.play\<close> and
  \<^verbatim>\<open>SoundManager.play\<close> start a sound: the conditions of their guards, collected.
  \<open>closing_until h T\<close>: the closing marker of window \<open>h\<close> is set and no pending timer
  clears it before \<open>T\<close>.
\<close>

definition plays_xp :: "string \<Rightarrow> real \<Rightarrow> page \<Rightarrow> bool" where
  "plays_xp soundName volume s =
     (xp_enabled s \<and> (preventAllSounds s \<longrightarrow> soundName = ''critical'')
      \<and> xp_sounds s soundName = Some Working \<and> 0 \<le> volume \<and> volume \<le> 1)"

definition closing_until :: "handle \<Rightarrow> nat \<Rightarrow> page \<Rightarrow> bool" where
  "closing_until h T s =
     (closingInProgress (elements s h) = Some ''true''
      \<and> (\<forall>t\<in>set (timers s). snd t = XP_ClearClosing h \<or> snd t = SM_ClearClosing h \<longrightarrow> T \<le> fst t))"

definition plays_sm :: "string \<Rightarrow> real \<Rightarrow> page \<Rightarrow> bool" where
  "plays_sm soundName volume s =
     (sm_enabled s \<and>
      (if xp_present s \<and> xp_sounds s soundName \<noteq> None then plays_xp soundName volume s
       else sm_sounds s soundName = Some Working \<and> 0 \<le> volume \<and> volume \<le> 1))"








text \<open>
  \<open>quiet_until C D\<close>: no pending timer with a callback in \<open>C\<close> is due before \<open>D\<close>.
  \<open>observer_view\<close> collects what the window observer reads besides the window itself;
  \<open>initially_visible\<close> is the selector and the test of the initial marking (lines 105-107).
\<close>

definition quiet_until :: "(callback \<Rightarrow> bool) \<Rightarrow> nat \<Rightarrow> page \<Rightarrow> bool" where
  "quiet_until C D s = (\<forall>t\<in>set (timers s). C (snd t) \<longrightarrow> D \<le> fst t)"

definition observer_view ::
  "page \<Rightarrow> bool \<times> bool \<times> string option \<times> string set \<times> bool \<times> (string \<Rightarrow> audio option) \<times> (string \<times> real) list" where
  "observer_view s =
     (recentWindowControlAction s, preventAllSounds s, lastSoundWindow s, xp_activeWindows s,
      xp_enabled s, xp_sounds s, played s)"

definition initially_visible :: "page \<Rightarrow> handle \<Rightarrow> bool" where
  "initially_visible s h =
     (h \<in> set (document_windows s) \<and> ''window'' \<in> set (classList (elements s h))
      \<and> ''minimized'' \<notin> set (classList (elements s h)) \<and> style_display (elements s h) \<noteq> ''none'')"


subsection \<open>The page after both scripts are loaded\<close>

text \<open>
  The sound tables are the object literals of the two scripts (windowsXPSounds.js, lines
  11-20; SoundManager.js, lines 20-52), every audio element in working order.  The page
  holds one visible window, as the media player window is at load.
\<close>

definition xp_sound_table :: "string \<Rightarrow> audio option" where
  "xp_sound_table soundName =
     (if soundName \<in> set [''error'', ''critical'', ''exclamation'', ''ding'', ''notify'',
                           ''minimize'', ''tada'']
      then Some Working else None)"

definition sm_sound_table :: "string \<Rightarrow> audio option" where
  "sm_sound_table soundName =
     (if soundName \<in> set [''startup'', ''shutdown'', ''error'', ''exclamation'', ''ding'',
                           ''notify'', ''windowOpen'', ''windowClose'', ''maximize'', ''minimize'',
                           ''click'', ''navigate'', ''critical'', ''mediaPlay'', ''mediaPause'',
                           ''mediaStop'', ''mediaNext'', ''mediaPrev'', ''logon'', ''logoff'',
                           ''recycle'', ''restore'', ''balloon'', ''question'', ''hardwareInsert'',
                           ''hardwareRemove'']
      then Some Working else None)"

definition wmp_window :: window_element where
  "wmp_window =
     \<lparr>element_id = ''wmp-window'', classList = [''window''], style_display = ''block'',
      soundPlayed = None, initialWindow = None, closingInProgress = None,
      criticalSoundPlayed = None\<rparr>"

definition loaded_page :: page where
  "loaded_page =
     \<lparr>clock = 0, timers = [], elements = (\<lambda>h. wmp_window), document_windows = [0],
      played = [], xp_present = True, xp_sounds = xp_sound_table, xp_enabled = True,
      xp_activeWindows = {}, preventAllSounds = False, recentWindowControlAction = False,
      lastSoundWindow = None, sm_sounds = sm_sound_table, sm_enabled = True,
      sm_activeWindows = {}\<rparr>"

section \<open>Playback state and shader intensity (visualizer.js)\<close>

subsection \<open>JavaScript values\<close>

text \<open>
  Message payloads, controller events and the \<^verbatim>\<open>isPlaying\<close> field itself hold arbitrary
  JavaScript values: the code assigns \<^verbatim>\<open>event.data.playing\<close> to \<^verbatim>\<open>isPlaying\<close> as it comes.
  Numbers are modelled as reals with \<open>JNaN\<close> apart; an object is the list of its own
  properties.  Reading a property of \<^verbatim>\<open>undefined\<close> or \<^verbatim>\<open>null\<close> throws a TypeError, reading
  a missing property gives \<^verbatim>\<open>undefined\<close>.
\<close>

datatype jsval =
    JUndefined
  | JNull
  | JBool bool
  | JNum real
  | JNaN
  | JStr string
  | JObj "(string \<times> jsval) list"

datatype exn = TypeError | ExternalError

fun truthy :: "jsval \<Rightarrow> bool" where
  "truthy JUndefined = False"
| "truthy JNull = False"
| "truthy (JBool b) = b"
| "truthy (JNum r) = (r \<noteq> 0)"
| "truthy JNaN = False"
| "truthy (JStr str) = (str \<noteq> [])"
| "truthy (JObj props) = True"

definition js_not :: "jsval \<Rightarrow> jsval" where
  "js_not v = JBool (\<not> truthy v)"

fun get_prop :: "jsval \<Rightarrow> string \<Rightarrow> exn + jsval" where
  "get_prop JUndefined k = Inl TypeError"
| "get_prop JNull k = Inl TypeError"
| "get_prop (JObj props) k = Inr (case map_of props k of None \<Rightarrow> JUndefined | Some v \<Rightarrow> v)"
| "get_prop v k = Inr JUndefined"





text \<open>
  The strings kept in \<^verbatim>\<open>localStorage\<close> are sequences of UTF-16 code units, here natural
  numbers; \<open>utf16\<close> gives the code units of a string of Latin-1 characters.
\<close>

type_synonym js_string = "nat list"

definition utf16 :: "string \<Rightarrow> js_string" where
  "utf16 str = map of_char str"

subsection \<open>The Visualizer object\<close>

text \<open>
  The fields of the \<^verbatim>\<open>Visualizer\<close> that the playback and intensity code reads and writes,
  together with what it touches outside: the shader material's uniforms (absent until
  the shader is loaded, and for the fallback material without uniforms), the Spotify
  controller and iframe with the commands sent to them, the modal visualizer's
  \<^verbatim>\<open>isPlaying\<close>, the registered event listeners with a log of the callbacks that were
  invoked, the two DOM elements of the status display, the two closure variables of
  \<^verbatim>\<open>setupDirectIframeListeners\<close>, and \<^verbatim>\<open>localStorage\<close>, whose every access throws when
  storage is denied.  Numbers are real numbers here; \<open>None\<close> in a numeric field stands for
  \<^verbatim>\<open>undefined\<close> or \<^verbatim>\<open>NaN\<close>.
\<close>

record uniforms =
  iTime :: real
  iIntensity :: "real option"
  iKaleidoscopePattern :: int

datatype listener = Returns | Throws

record controller =
  playFromClickEvent_throws :: bool
  pause_throws :: bool
  toggle_throws :: bool

record visualizer =
  isPlaying :: jsval
  intensity :: real
  visualizationIntensity :: "real option"
  kaleidoscopePattern :: int
  material :: "uniforms option"
  spotifyController :: "controller option"
  spotifyFrame :: "bool option"
  commands :: "string list"
  modalVisualizer :: "jsval option"
  eventListeners :: "string \<Rightarrow> listener list option"
  delivered :: "(string \<times> jsval) list"
  statusElement :: "(string \<times> string) option"
  debugButton :: "string option"
  lastIframeClickTime :: int
  lastPlaybackState :: jsval
  localStorage :: "string \<Rightarrow> js_string option"
  storage_denied :: bool

text \<open>
  The constructor (lines 2-61), as far as these props go.  The controller, the frame,
  the DOM elements, the listeners and the storage are what the page provides.
\<close>

definition new_visualizer ::
  "controller option \<Rightarrow> bool option \<Rightarrow> jsval option \<Rightarrow> (string \<Rightarrow> listener list option) \<Rightarrow>
   (string \<Rightarrow> js_string option) \<Rightarrow> bool \<Rightarrow> visualizer" where
  "new_visualizer ctl frame modal listeners storage denied =
     \<lparr>isPlaying = JBool False, intensity = 0.5, visualizationIntensity = Some 1.0,
      kaleidoscopePattern = 1, material = None, spotifyController = ctl, spotifyFrame = frame,
      commands = [], modalVisualizer = modal, eventListeners = listeners, delivered = [],
      statusElement = None, debugButton = None, lastIframeClickTime = 0,
      lastPlaybackState = JBool False, localStorage = storage, storage_denied = denied\<rparr>"

text \<open>
  \<^verbatim>\<open>loadShader\<close> (lines 188-231), the part that creates the uniforms from the props.
\<close>

definition times_opt :: "real \<Rightarrow> real option \<Rightarrow> real option" where
  "times_opt a b = (case b of None \<Rightarrow> None | Some v \<Rightarrow> Some (a * v))"

definition loadShader :: "visualizer \<Rightarrow> visualizer" where
  "loadShader s =
     s\<lparr>material := Some \<lparr>iTime = 0,
                          iIntensity = times_opt (intensity s) (visualizationIntensity s),
                          iKaleidoscopePattern = kaleidoscopePattern s\<rparr>\<rparr>"

text \<open>
  \<^verbatim>\<open>dispatchEvent\<close> (lines 1154-1176): without listeners for the event it returns false;
  otherwise every callback is invoked inside its own try/catch, so a callback that throws
  stops nothing.  The log records each invocation.
\<close>

definition dispatchEvent :: "string \<Rightarrow> jsval \<Rightarrow> visualizer \<Rightarrow> bool \<times> visualizer" where
  "dispatchEvent eventName data s =
     (case eventListeners s eventName of
        None \<Rightarrow> (False, s)
      | Some callbacks \<Rightarrow>
          (True, s\<lparr>delivered := delivered s @ map (\<lambda>callback. (eventName, data)) callbacks\<rparr>))"

text \<open>
  \<^verbatim>\<open>ModalVisualizer.updatePlaybackStatus\<close> (lines 1245-1256) stores the value; starting the
  modal renderer is left out.
\<close>

definition update_modal :: "visualizer \<Rightarrow> visualizer" where
  "update_modal s =
     (case modalVisualizer s of
        None \<Rightarrow> s
      | Some m \<Rightarrow> s\<lparr>modalVisualizer := Some (isPlaying s)\<rparr>)"

text \<open>
  \<^verbatim>\<open>updatePlaybackStatus(newState = null)\<close> (lines 733-762).  A call without argument, or
  with \<^verbatim>\<open>undefined\<close>, takes the default \<^verbatim>\<open>null\<close>.
\<close>

definition updatePlaybackStatus :: "jsval \<Rightarrow> visualizer \<Rightarrow> visualizer" where
  "updatePlaybackStatus arg s =
     (let newState = (if arg = JUndefined then JNull else arg);
          s1 = (if newState \<noteq> JNull then s\<lparr>isPlaying := newState\<rparr> else s);
          s2 = (case statusElement s1 of
                  None \<Rightarrow> s1
                | Some e \<Rightarrow> s1\<lparr>statusElement :=
                    Some (if truthy (isPlaying s1) then (''Playing'', ''status-playing'')
                          else (''Paused'', ''status-paused''))\<rparr>);
          s3 = (case debugButton s2 of
                  None \<Rightarrow> s2
                | Some b \<Rightarrow> s2\<lparr>debugButton := Some (if truthy (isPlaying s2) then ''Pause'' else ''Play'')\<rparr>);
          s4 = s3\<lparr>intensity := (if truthy (isPlaying s3) then 1.0 else 0.5)\<rparr>;
          s5 = update_modal s4
      in snd (dispatchEvent ''playback-update'' (JObj [(''isPlaying'', isPlaying s5)]) s5))"

subsection \<open>Signals\<close>

text \<open>
  The message listener of \<^verbatim>\<open>setupSpotifyAPI\<close> (lines 319-350).  \<open>message_body\<close> is the
  body of the \<^verbatim>\<open>try\<close>; the \<^verbatim>\<open>catch\<close> logs the error and goes on with the state as it was
  (each branch throws, if at all, before its first assignment).
\<close>

record message_event =
  origin :: string
  data :: jsval





definition polled_value :: "jsval \<Rightarrow> jsval" where
  "polled_value state =
     (if truthy state then
        (case get_prop state ''isPaused'' of Inl e \<Rightarrow> JUndefined | Inr p \<Rightarrow> js_not p)
      else state)"








subsection \<open>Manual toggle\<close>

text \<open>
  The commands to the embedded player.  Each may throw; a command that goes through is
  logged.
\<close>

definition send_command :: "bool \<Rightarrow> string \<Rightarrow> visualizer \<Rightarrow> exn + visualizer" where
  "send_command throws name s =
     (if throws then Inl ExternalError else Inr (s\<lparr>commands := commands s @ [name]\<rparr>))"

text \<open>
  \<^verbatim>\<open>togglePlayback\<close> (lines 564-640).  \<open>command_player\<close> is its first part (lines 573-622),
  the commands with their \<^verbatim>\<open>try\<close> and \<^verbatim>\<open>catch\<close>: the controller's play or pause, then its
  toggle if that threw; without a controller a message to the frame, if there is one.  The
  click on the play button that the frame branch schedules 100 ms later has its own
  try/catch and is logged as a command.  The result of \<open>togglePlayback\<close> is a sum so that an
  error that escapes would show.
\<close>

definition command_player :: "jsval \<Rightarrow> visualizer \<Rightarrow> visualizer" where
  "command_player newPlaybackState s =
     (case spotifyController s of
        Some c \<Rightarrow>
          (case (if truthy newPlaybackState
                 then send_command (playFromClickEvent_throws c) ''playFromClickEvent'' s
                 else send_command (pause_throws c) ''pause'' s) of
             Inr s' \<Rightarrow> s'
           | Inl e \<Rightarrow>
               (case send_command (toggle_throws c) ''toggle'' s of
                  Inr s' \<Rightarrow> s'
                | Inl err \<Rightarrow> s))
      | None \<Rightarrow>
          (case spotifyFrame s of
             None \<Rightarrow> s
           | Some postMessage_throws \<Rightarrow>
               (case send_command postMessage_throws
                       (if truthy newPlaybackState then ''postMessage play'' else ''postMessage pause'') s of
                  Inr s' \<Rightarrow> s'\<lparr>commands := commands s' @ [''click play-pause-btn later'']\<rparr>
                | Inl e \<Rightarrow> s)))"

definition togglePlayback :: "visualizer \<Rightarrow> exn + jsval \<times> visualizer" where
  "togglePlayback s =
     (let isCurrentlyPlaying = isPlaying s;
          newPlaybackState = js_not isCurrentlyPlaying;
          s1 = command_player newPlaybackState s;
          s2 = s1\<lparr>isPlaying := newPlaybackState\<rparr>;
          s3 = updatePlaybackStatus JUndefined s2;
          s4 = update_modal s3;
          s5 = snd (dispatchEvent ''playback-update'' (JObj [(''isPlaying'', isPlaying s4)]) s4)
      in Inr (isPlaying s5, s5))"

subsection \<open>Intensity and style\<close>

text \<open>
  \<^verbatim>\<open>animate\<close> (lines 1017-1038): one frame at elapsed time \<open>time\<close>.  Rendering itself is
  outside the model.
\<close>

definition animate :: "real \<Rightarrow> visualizer \<Rightarrow> visualizer" where
  "animate time s =
     (case material s of
        None \<Rightarrow> s
      | Some u \<Rightarrow>
          (let combinedIntensity = times_opt (intensity s) (visualizationIntensity s);
               pulseFactor = (if truthy (isPlaying s) then 1.0 + 0.2 * sin (time * 3.0) else 1.0)
           in s\<lparr>material := Some (u\<lparr>iTime := time,
                                     iIntensity := map_option (\<lambda>c. c * pulseFactor) combinedIntensity\<rparr>)\<rparr>))"

text \<open>
  \<^verbatim>\<open>Number.prototype.toString\<close> for an integer, and \<^verbatim>\<open>parseInt\<close> with one argument
  (ECMAScript, parseInt(string, radix) with radix undefined).  \<^verbatim>\<open>parseInt\<close> strips leading
  white space and line terminators, reads a sign, switches to radix 16 after \<^verbatim>\<open>0x\<close> or
  \<^verbatim>\<open>0X\<close>, and converts the longest prefix of digits, ignoring what follows; without a
  digit the result is \<^verbatim>\<open>NaN\<close> (\<open>None\<close>).  The result is the exact integer: the callers only
  compare it with 0, 1, 2 and 4 and use it when it is in that range, where the rounding to
  a double changes nothing, and \<^verbatim>\<open>-0\<close> behaves as 0 there.

  White space is TAB, VT, FF, SP, NBSP, ZWNBSP and the category Zs (U+1680, U+2000 to
  U+200A, U+202F, U+205F, U+3000); the line terminators are LF, CR, U+2028 and U+2029.
\<close>

fun digits_of :: "nat \<Rightarrow> js_string" where
  "digits_of n = (if n < 10 then [48 + n] else digits_of (n div 10) @ [48 + n mod 10])"

declare digits_of.simps [simp del]

definition toString :: "int \<Rightarrow> js_string" where
  "toString i = (if i < 0 then 45 # digits_of (nat (- i)) else digits_of (nat i))"

definition digit_value :: "int \<Rightarrow> nat \<Rightarrow> int option" where
  "digit_value radix c =
     (let v = (if 48 \<le> c \<and> c \<le> 57 then int c - 48
               else if 97 \<le> c \<and> c \<le> 122 then int c - 87
               else if 65 \<le> c \<and> c \<le> 90 then int c - 55
               else 99)
      in if v < radix then Some v else None)"

fun read_digits :: "int \<Rightarrow> int option \<Rightarrow> js_string \<Rightarrow> int option" where
  "read_digits radix acc [] = acc"
| "read_digits radix acc (c # cs) =
     (case digit_value radix c of
        None \<Rightarrow> acc
      | Some v \<Rightarrow> read_digits radix (Some ((case acc of None \<Rightarrow> 0 | Some a \<Rightarrow> a) * radix + v)) cs)"

definition is_white_space :: "nat \<Rightarrow> bool" where
  "is_white_space c =
     (c \<in> {9, 10, 11, 12, 13, 32, 160, 5760, 8232, 8233, 8239, 8287, 12288, 65279}
      \<or> (8192 \<le> c \<and> c \<le> 8202))"

definition parseInt :: "js_string \<Rightarrow> int option" where
  "parseInt str =
     (let s1 = dropWhile is_white_space str;
          sign = (if take 1 s1 = [45] then - 1 else 1);
          s2 = (if take 1 s1 = [45] \<or> take 1 s1 = [43] then tl s1 else s1);
          hex = (take 2 s2 = [48, 120] \<or> take 2 s2 = [48, 88])
      in map_option (\<lambda>v. sign * v)
           (if hex then read_digits 16 None (drop 2 s2) else read_digits 10 None s2))"

text \<open>
  \<^verbatim>\<open>localStorage.setItem\<close> and \<^verbatim>\<open>getItem\<close>.
\<close>

definition setItem :: "string \<Rightarrow> js_string \<Rightarrow> visualizer \<Rightarrow> exn + visualizer" where
  "setItem key v s =
     (if storage_denied s then Inl ExternalError
      else Inr (s\<lparr>localStorage := (localStorage s)(key := Some v)\<rparr>))"

definition getItem :: "string \<Rightarrow> visualizer \<Rightarrow> exn + js_string option" where
  "getItem key s = (if storage_denied s then Inl ExternalError else Inr (localStorage s key))"

text \<open>
  \<^verbatim>\<open>updateVisualizationStyle\<close> (lines 976-993) and \<^verbatim>\<open>updateKaleidoscopePattern\<close>
  (lines 1078-1094).  \<^verbatim>\<open>intensities[style]\<close> is \<^verbatim>\<open>undefined\<close> outside 0..2.
\<close>

definition intensities :: "real list" where
  "intensities = [0.3, 0.7, 1.2]"

definition updateVisualizationStyle :: "int \<Rightarrow> visualizer \<Rightarrow> visualizer" where
  "updateVisualizationStyle style s =
     (let s1 = s\<lparr>visualizationIntensity :=
                  (if 0 \<le> style \<and> style < 3 then Some (intensities ! nat style) else None)\<rparr>;
          s2 = (case material s1 of
                  None \<Rightarrow> s1
                | Some u \<Rightarrow>
                    s1\<lparr>material := Some (u\<lparr>iIntensity :=
                          times_opt (intensity s1) (visualizationIntensity s1)\<rparr>)\<rparr>)
      in case setItem ''wmp_viz_style'' (toString style) s2 of
           Inl e \<Rightarrow> s2
         | Inr s3 \<Rightarrow> s3)"

definition updateKaleidoscopePattern :: "int \<Rightarrow> visualizer \<Rightarrow> visualizer" where
  "updateKaleidoscopePattern pattern s =
     (let s1 = s\<lparr>kaleidoscopePattern := pattern\<rparr>;
          s2 = (case material s1 of
                  None \<Rightarrow> s1
                | Some u \<Rightarrow> s1\<lparr>material := Some (u\<lparr>iKaleidoscopePattern := pattern\<rparr>)\<rparr>)
      in case setItem ''wmp_kaleido_pattern'' (toString pattern) s2 of
           Inl e \<Rightarrow> s2
         | Inr s3 \<Rightarrow> s3)"

text \<open>
  The \<^verbatim>\<open>load\<close> handler (lines 1628-1665) after \<^verbatim>\<open>new Visualizer()\<close>: the body of its
  \<^verbatim>\<open>try\<close> restores the style, then the pattern; an error of the storage ends it where it
  is, with what was restored so far.
\<close>

definition restore_style :: "visualizer \<Rightarrow> exn + visualizer" where
  "restore_style s =
     (case getItem ''wmp_viz_style'' s of
        Inl e \<Rightarrow> Inl e
      | Inr None \<Rightarrow> Inr s
      | Inr (Some savedStyle) \<Rightarrow>
          (case parseInt savedStyle of
             None \<Rightarrow> Inr s
           | Some styleIndex \<Rightarrow>
               if styleIndex \<ge> 0 \<and> styleIndex \<le> 2 then Inr (updateVisualizationStyle styleIndex s)
               else Inr s))"

definition restore_pattern :: "visualizer \<Rightarrow> exn + visualizer" where
  "restore_pattern s =
     (case getItem ''wmp_kaleido_pattern'' s of
        Inl e \<Rightarrow> Inl e
      | Inr None \<Rightarrow> Inr s
      | Inr (Some savedPattern) \<Rightarrow>
          (case parseInt savedPattern of
             None \<Rightarrow> Inr s
           | Some patternIndex \<Rightarrow>
               if patternIndex \<ge> 1 \<and> patternIndex \<le> 4 then Inr (updateKaleidoscopePattern patternIndex s)
               else Inr s))"

definition restore_preferences :: "visualizer \<Rightarrow> visualizer" where
  "restore_preferences s =
     (case restore_style s of
        Inl e \<Rightarrow> s
      | Inr s1 \<Rightarrow> (case restore_pattern s1 of Inl e \<Rightarrow> s1 | Inr s2 \<Rightarrow> s2))"

subsection \<open>Vocabulary of the statements on the visualizer\<close>

text \<open>
  The three factors of the intensity formula as the specification names them, with the
  constants of \<^verbatim>\<open>updatePlaybackStatus\<close>, \<^verbatim>\<open>updateVisualizationStyle\<close> and \<^verbatim>\<open>animate\<close>.
  \<open>in_step\<close>: the \<^verbatim>\<open>intensity\<close> field is the base intensity of \<^verbatim>\<open>isPlaying\<close>, as every
  call of \<^verbatim>\<open>updatePlaybackStatus\<close> leaves it.  \<open>fresh_session\<close> is a new Visualizer without
  controller, iframe or stored preferences, once its shader material is created.
\<close>

definition baseIntensity :: "bool \<Rightarrow> real" where
  "baseIntensity playing = (if playing then 1.0 else 0.5)"

definition styleMultiplier :: "nat \<Rightarrow> real" where
  "styleMultiplier level = intensities ! level"

definition pulse :: "real \<Rightarrow> bool \<Rightarrow> real" where
  "pulse t playing = (if playing then 1.0 + 0.2 * sin (3 * t) else 1.0)"

definition in_step :: "visualizer \<Rightarrow> bool" where
  "in_step s = (intensity s = baseIntensity (truthy (isPlaying s)))"

definition fresh_session :: visualizer where
  "fresh_session =
     loadShader (new_visualizer None None None (\<lambda>name. None) (\<lambda>key. None) False)"

text \<open>
  The listeners registered for \<^verbatim>\<open>playback-update\<close>, the entries one dispatch of the value
  \<open>v\<close> adds to the log, and the value \<^verbatim>\<open>isPlaying\<close> has after \<^verbatim>\<open>updatePlaybackStatus(arg)\<close>
  (\<^verbatim>\<open>null\<close> and \<^verbatim>\<open>undefined\<close> leave it as it is).
\<close>

definition listeners_of :: "visualizer \<Rightarrow> listener list" where
  "listeners_of s = (case eventListeners s ''playback-update'' of None \<Rightarrow> [] | Some callbacks \<Rightarrow> callbacks)"

definition notice :: "jsval \<Rightarrow> visualizer \<Rightarrow> (string \<times> jsval) list" where
  "notice v s = map (\<lambda>callback. (''playback-update'', JObj [(''isPlaying'', v)])) (listeners_of s)"

definition effective :: "jsval \<Rightarrow> visualizer \<Rightarrow> jsval" where
  "effective arg s = (if arg = JUndefined \<or> arg = JNull then isPlaying s else arg)"











text \<open>
  A stored value is usable for a preference with range \<open>lo..hi\<close> when \<^verbatim>\<open>parseInt\<close> reads an
  integer of the range from it; an absent value, one that \<^verbatim>\<open>parseInt\<close> reads as \<^verbatim>\<open>NaN\<close> and
  one out of range are not.
\<close>

definition usable :: "int \<Rightarrow> int \<Rightarrow> js_string option \<Rightarrow> bool" where
  "usable lo hi stored =
     (case stored of
        None \<Rightarrow> False
      | Some v \<Rightarrow> (case parseInt v of None \<Rightarrow> False | Some i \<Rightarrow> lo \<le> i \<and> i \<le> hi))"


section \<open>Properties of the sound gate\<close>

lemma run_until_None: "due_timer T s = None \<Longrightarrow> run_until T s = s\<lparr>clock := max (clock s) T\<rparr>"
  by (subst run_until.simps) simp

lemma run_until_Some: "due_timer T s = Some t \<Longrightarrow> run_until T s = run_until T (run_timer t s)"
  by (subst run_until.simps) simp

lemma run_until_invariant:
  assumes "P s"
    and "\<And>s t. P s \<Longrightarrow> due_timer T s = Some t \<Longrightarrow> P (run_timer t s)"
    and "\<And>s. P s \<Longrightarrow> due_timer T s = None \<Longrightarrow> Q (s\<lparr>clock := max (clock s) T\<rparr>)"
  shows "Q (run_until T s)"
  using assms
proof (induction T s rule: run_until.induct)
  case (1 T s)
  show ?case
  proof (cases "due_timer T s")
    case None
    show ?thesis
      unfolding run_until_None [OF None] by (rule "1.prems"(3) [OF "1.prems"(1) None])
  next
    case (Some t)
    have "P (run_timer t s)"
      by (rule "1.prems"(2) [OF "1.prems"(1) Some])
    then show ?thesis
      unfolding run_until_Some [OF Some]
      by (rule "1.IH" [OF Some _ "1.prems"(2) "1.prems"(3)])
  qed
qed

lemma xp_play_eq:
  "xp_play soundName volume s =
     (plays_xp soundName volume s,
      if plays_xp soundName volume s then s\<lparr>played := played s @ [(soundName, volume)]\<rparr> else s)"
  by (auto simp: xp_play_def plays_xp_def split: option.splits audio.splits)

lemma close_click_prevents: "preventAllSounds (closeButton_click h s)"
  by (simp add: closeButton_click_def Let_def playSoundForWindow_def xp_play_eq xp_addActiveWindow_def)

lemma close_click_timer:
  "(clock s + 1000, ResetCloseFlags) \<in> set (timers (closeButton_click h s))"
  by (simp add: closeButton_click_def Let_def playSoundForWindow_def xp_play_eq xp_addActiveWindow_def)

lemma earliest_None_iff: "earliest ts = None \<longleftrightarrow> ts = []"
  by (cases ts) (auto split: option.splits)

lemma earliest_le: "earliest ts = Some t \<Longrightarrow> u \<in> set ts \<Longrightarrow> fst t \<le> fst u"
  by (induction ts arbitrary: t) (fastforce simp: earliest_None_iff split: option.splits if_splits)+

lemma due_timer_None_iff: "due_timer T s = None \<longleftrightarrow> (\<forall>t\<in>set (timers s). T < fst t)"
proof (cases "earliest (timers s)")
  case None
  then show ?thesis by (simp add: due_timer_def earliest_None_iff)
next
  case (Some t)
  show ?thesis
  proof (cases "fst t \<le> T")
    case True
    then show ?thesis
      using Some earliest_mem [OF Some] by (auto simp: due_timer_def not_less intro!: bexI [of _ t])
  next
    case False
    then show ?thesis
      using Some earliest_le [OF Some] by (fastforce simp: due_timer_def)
  qed
qed

lemma due_timer_SomeD:
  assumes "due_timer T s = Some t"
  shows "t \<in> set (timers s)" and "fst t \<le> T"
  using assms by (auto simp: due_timer_def dest: earliest_mem split: option.splits if_splits)

lemma fold_clear_initial_elements:
  "elements (fold clear_initial hs s) h =
     (if h \<in> set hs then (elements s h)\<lparr>initialWindow := Some ''''\<rparr> else elements s h)"
  by (induction hs arbitrary: s) (auto simp: clear_initial_def)


lemma fire_timers:
  "\<exists>hs. timers (fire cb s) = timers s @ map (\<lambda>h. (clock s + 500, ClearSoundPlayed h)) hs"
proof (cases "cb = ClearInitialFlags")
  case True
  then show ?thesis by (auto simp: fold_clear_initial_timers)
next
  case False
  then have "timers (fire cb s) = timers s @ map (\<lambda>h. (clock s + 500, ClearSoundPlayed h)) []"
    by (simp add: fire_timers_other)
  then show ?thesis by blast
qed

lemma fire_closingInProgress:
  "cb \<noteq> XP_ClearClosing h \<Longrightarrow> cb \<noteq> SM_ClearClosing h \<Longrightarrow>
   closingInProgress (elements (fire cb s) h) = closingInProgress (elements s h)"
  by (cases cb) (auto simp: fold_clear_initial_elements)

lemma fire_criticalSoundPlayed:
  "cb \<noteq> SM_ClearClosing h \<Longrightarrow>
   criticalSoundPlayed (elements (fire cb s) h) = criticalSoundPlayed (elements s h)"
  by (cases cb) (auto simp: fold_clear_initial_elements)



lemma closing_until_run_timer:
  assumes "closing_until h D s" and "due_timer T s = Some t" and "T < D"
  shows "closing_until h D (run_timer t s)"
proof -
  from assms(2) have mem: "t \<in> set (timers s)" and due: "fst t \<le> T"
    by (rule due_timer_SomeD)+
  with assms(1,3) have not_clear: "snd t \<noteq> XP_ClearClosing h" "snd t \<noteq> SM_ClearClosing h"
    by (auto simp: closing_until_def)
  let ?s0 = "s\<lparr>clock := max (clock s) (fst t), timers := remove1 t (timers s)\<rparr>"
  obtain hs where tm: "timers (fire (snd t) ?s0)
      = timers ?s0 @ map (\<lambda>h. (clock ?s0 + 500, ClearSoundPlayed h)) hs"
    using fire_timers by blast
  have "closingInProgress (elements (fire (snd t) ?s0) h) = Some ''true''"
    using assms(1) not_clear by (simp add: fire_closingInProgress closing_until_def)
  moreover have "\<forall>u\<in>set (timers (fire (snd t) ?s0)).
      snd u = XP_ClearClosing h \<or> snd u = SM_ClearClosing h \<longrightarrow> D \<le> fst u"
    using assms(1) unfolding tm closing_until_def
    by (auto dest: notin_set_remove1 [rotated] simp: image_iff)
  ultimately show ?thesis
    by (simp add: closing_until_def run_timer_def)
qed

lemma closing_until_run_until:
  assumes "closing_until h D s" and "T < D"
  shows "closing_until h D (run_until T s)"
proof (rule run_until_invariant [where P = "closing_until h D"])
  show "closing_until h D s" by fact
next
  fix s' t
  assume "closing_until h D s'" and "due_timer T s' = Some t"
  then show "closing_until h D (run_timer t s')"
    using assms(2) by (rule closing_until_run_timer)
next
  fix s'
  assume "closing_until h D s'"
  then show "closing_until h D (s'\<lparr>clock := max (clock s') T\<rparr>)"
    by (simp add: closing_until_def)
qed

lemma sm_play_eq:
  "sm_play soundName volume s =
     (plays_sm soundName volume s,
      if plays_sm soundName volume s then s\<lparr>played := played s @ [(soundName, volume)]\<rparr> else s)"
  by (auto simp: sm_play_def plays_sm_def xp_play_eq split: option.splits audio.splits)

lemma plays_xp_simps [simp]:
  "plays_xp n v (update_element h f s) = plays_xp n v s"
  "plays_xp n v (setTimeout cb d s) = plays_xp n v s"
  "plays_xp n v (s\<lparr>played := p\<rparr>) = plays_xp n v s"
  "plays_xp n v (s\<lparr>lastSoundWindow := l\<rparr>) = plays_xp n v s"
  "plays_xp n v (s\<lparr>xp_activeWindows := a\<rparr>) = plays_xp n v s"
  "plays_xp n v (s\<lparr>sm_activeWindows := a\<rparr>) = plays_xp n v s"
  "plays_xp n v (s\<lparr>recentWindowControlAction := b\<rparr>) = plays_xp n v s"
  by (simp_all add: plays_xp_def)

lemma plays_sm_simps [simp]:
  "plays_sm n v (update_element h f s) = plays_sm n v s"
  "plays_sm n v (setTimeout cb d s) = plays_sm n v s"
  "plays_sm n v (s\<lparr>played := p\<rparr>) = plays_sm n v s"
  "plays_sm n v (s\<lparr>lastSoundWindow := l\<rparr>) = plays_sm n v s"
  "plays_sm n v (s\<lparr>xp_activeWindows := a\<rparr>) = plays_sm n v s"
  "plays_sm n v (s\<lparr>sm_activeWindows := a\<rparr>) = plays_sm n v s"
  "plays_sm n v (s\<lparr>recentWindowControlAction := b\<rparr>) = plays_sm n v s"
  by (auto simp: plays_sm_def)





lemma fold_clear_initial_played: "played (fold clear_initial hs s) = played s"
  by (induction hs arbitrary: s) (simp_all add: clear_initial_def)

lemma fire_played: "played (fire cb s) = played s"
  by (cases cb) (simp_all add: fold_clear_initial_played)

lemma run_until_played: "played (run_until T s) = played s"
proof (rule run_until_invariant [where P = "\<lambda>s'. played s' = played s"])
  show "played s = played s" by simp
next
  fix s' :: page and t
  assume "played s' = played s"
  then show "played (run_timer t s') = played s"
    by (simp add: run_timer_def fire_played)
next
  fix s' :: page
  assume "played s' = played s"
  then show "played (s'\<lparr>clock := max (clock s') T\<rparr>) = played s" by simp
qed




lemma quiet_until_run_timer:
  assumes "quiet_until C D s" and "due_timer T s = Some t" and "T < D"
    and "\<And>h. \<not> C (ClearSoundPlayed h)"
  shows "quiet_until C D (run_timer t s)" and "\<not> C (snd t)"
proof -
  from assms(2) have mem: "t \<in> set (timers s)" and due: "fst t \<le> T"
    by (rule due_timer_SomeD)+
  with assms(1,3) show "\<not> C (snd t)"
    by (auto simp: quiet_until_def)
  let ?s0 = "s\<lparr>clock := max (clock s) (fst t), timers := remove1 t (timers s)\<rparr>"
  obtain hs where tm: "timers (fire (snd t) ?s0)
      = timers ?s0 @ map (\<lambda>h. (clock ?s0 + 500, ClearSoundPlayed h)) hs"
    using fire_timers by blast
  have "\<forall>u\<in>set (timers (fire (snd t) ?s0)). C (snd u) \<longrightarrow> D \<le> fst u"
    using assms(1,4) unfolding tm quiet_until_def
    by (auto dest: notin_set_remove1 [rotated] simp: image_iff)
  then show "quiet_until C D (run_timer t s)"
    by (simp add: quiet_until_def run_timer_def)
qed

lemma run_until_preserves:
  fixes F :: "page \<Rightarrow> bool"
  assumes "quiet_until C D s" and "T < D" and "\<And>h. \<not> C (ClearSoundPlayed h)"
    and "F s"
    and pres: "\<And>cb s. \<not> C cb \<Longrightarrow> F s \<Longrightarrow> F (fire cb s)"
    and frame: "\<And>s c ts. F (s\<lparr>clock := c, timers := ts\<rparr>) = F s" "\<And>s c. F (s\<lparr>clock := c\<rparr>) = F s"
  shows "F (run_until T s) \<and> quiet_until C D (run_until T s)"
proof (rule run_until_invariant [where P = "\<lambda>s'. F s' \<and> quiet_until C D s'"])
  show "F s \<and> quiet_until C D s" using assms(1,4) by simp
next
  fix s' :: page and t
  assume P: "F s' \<and> quiet_until C D s'" and due: "due_timer T s' = Some t"
  from P have q0: "quiet_until C D s'" by simp
  have q: "quiet_until C D (run_timer t s')" and nC: "\<not> C (snd t)"
    using quiet_until_run_timer [OF q0 due assms(2,3)] by blast+
  have "F (run_timer t s')"
    unfolding run_timer_def using P by (intro pres [OF nC]) (simp add: frame)
  with q show "F (run_timer t s') \<and> quiet_until C D (run_timer t s')" by simp
next
  fix s' :: page
  assume "F s' \<and> quiet_until C D s'"
  then show "F (s'\<lparr>clock := max (clock s') T\<rparr>) \<and> quiet_until C D (s'\<lparr>clock := max (clock s') T\<rparr>)"
    by (simp add: frame quiet_until_def)
qed

lemma fold_clear_initial_preventAllSounds:
  "preventAllSounds (fold clear_initial hs s) = preventAllSounds s"
  by (induction hs arbitrary: s) (simp_all add: clear_initial_def)

lemma fire_preventAllSounds:
  "preventAllSounds (fire cb s) = (cb \<noteq> ResetCloseFlags \<and> preventAllSounds s)"
  by (cases cb) (simp_all add: fold_clear_initial_preventAllSounds)

lemma reset_fires:
  assumes "(d, ResetCloseFlags) \<in> set (timers s)" and "d \<le> T"
  shows "\<not> preventAllSounds (run_until T s)"
proof (rule run_until_invariant
    [where P = "\<lambda>s'. preventAllSounds s' \<longrightarrow> (\<exists>d\<le>T. (d, ResetCloseFlags) \<in> set (timers s'))"])
  show "preventAllSounds s \<longrightarrow> (\<exists>d\<le>T. (d, ResetCloseFlags) \<in> set (timers s))"
    using assms by blast
next
  fix s' :: page and t
  assume P: "preventAllSounds s' \<longrightarrow> (\<exists>d\<le>T. (d, ResetCloseFlags) \<in> set (timers s'))"
    and due: "due_timer T s' = Some t"
  let ?s0 = "s'\<lparr>clock := max (clock s') (fst t), timers := remove1 t (timers s')\<rparr>"
  show "preventAllSounds (run_timer t s') \<longrightarrow> (\<exists>d\<le>T. (d, ResetCloseFlags) \<in> set (timers (run_timer t s')))"
  proof
    assume "preventAllSounds (run_timer t s')"
    then have nr: "snd t \<noteq> ResetCloseFlags" and "preventAllSounds s'"
      by (simp_all add: run_timer_def fire_preventAllSounds)
    with P obtain d' where d': "d' \<le> T" "(d', ResetCloseFlags) \<in> set (timers s')" by blast
    with nr have "(d', ResetCloseFlags) \<in> set (remove1 t (timers s'))"
      by (cases t) auto
    moreover obtain hs where "timers (fire (snd t) ?s0)
        = timers ?s0 @ map (\<lambda>h. (clock ?s0 + 500, ClearSoundPlayed h)) hs"
      using fire_timers by blast
    ultimately have "(d', ResetCloseFlags) \<in> set (timers (run_timer t s'))"
      by (simp add: run_timer_def)
    with d' show "\<exists>d\<le>T. (d, ResetCloseFlags) \<in> set (timers (run_timer t s'))" by blast
  qed
next
  fix s' :: page
  assume P: "preventAllSounds s' \<longrightarrow> (\<exists>d\<le>T. (d, ResetCloseFlags) \<in> set (timers s'))"
    and "due_timer T s' = None"
  then have "\<forall>t\<in>set (timers s'). T < fst t"
    by (simp add: due_timer_None_iff)
  with P show "\<not> preventAllSounds (s'\<lparr>clock := max (clock s') T\<rparr>)"
    by fastforce
qed

lemma close_click_timers:
  "\<exists>ts. timers (closeButton_click h s) = timers s @ ts @ [(clock s + 1000, ResetCloseFlags)]
        \<and> (\<forall>t\<in>set ts. snd t \<noteq> ResetCloseFlags)"
  by (simp add: closeButton_click_def Let_def playSoundForWindow_def xp_play_eq xp_addActiveWindow_def)

lemma windowClose_suppressed_by_marker:
  assumes "criticalSoundPlayed (elements s h) = Some ''true''"
    and "closingInProgress (elements s h) = Some ''true'' \<or> xp_present s"
  shows "fst (playForWindow (Some h) ''windowClose'' v d s) = False"
    and "played (snd (playForWindow (Some h) ''windowClose'' v d s)) = played s"
proof -
  show "fst (playForWindow (Some h) ''windowClose'' v d s) = False"
    using assms by (auto simp: playForWindow_def Let_def)
  show "played (snd (playForWindow (Some h) ''windowClose'' v d s)) = played s"
    using assms by (auto simp: playForWindow_def Let_def)
qed

lemma critical_accepted_marker:
  assumes "closingInProgress (elements s h) \<noteq> Some ''true''"
    and "\<forall>t\<in>set (timers s). snd t \<noteq> XP_ClearClosing h \<and> snd t \<noteq> SM_ClearClosing h"
  shows "criticalSoundPlayed (elements (snd (playForWindow (Some h) ''critical'' v d s)) h) = Some ''true''"
    and "quiet_until (\<lambda>cb. cb = SM_ClearClosing h) (clock s + 1500)
           (snd (playForWindow (Some h) ''critical'' v d s))"
proof -
  note defs = playForWindow_def Let_def sm_play_eq sm_addActiveWindow_def quiet_until_def
  show "criticalSoundPlayed (elements (snd (playForWindow (Some h) ''critical'' v d s)) h) = Some ''true''"
    using assms by (simp add: defs)
  show "quiet_until (\<lambda>cb. cb = SM_ClearClosing h) (clock s + 1500)
           (snd (playForWindow (Some h) ''critical'' v d s))"
    using assms by (simp add: defs)
qed

lemma loaded_page_fields:
  "clock loaded_page = 0" "timers loaded_page = []" "elements loaded_page h = wmp_window"
  "document_windows loaded_page = [0]" "played loaded_page = []" "xp_present loaded_page"
  "xp_sounds loaded_page = xp_sound_table" "xp_enabled loaded_page"
  "xp_activeWindows loaded_page = {}" "\<not> preventAllSounds loaded_page"
  "\<not> recentWindowControlAction loaded_page" "lastSoundWindow loaded_page = None"
  "sm_sounds loaded_page = sm_sound_table" "sm_enabled loaded_page"
  "sm_activeWindows loaded_page = {}"
  by (simp_all add: loaded_page_def)







lemma observer_view_simps [simp]:
  "observer_view (update_element h f s) = observer_view s"
  "observer_view (setTimeout cb d s) = observer_view s"
  "observer_view (s\<lparr>clock := c\<rparr>) = observer_view s"
  "observer_view (s\<lparr>timers := ts\<rparr>) = observer_view s"
  by (simp_all add: observer_view_def)

lemma fold_mark_initial_view: "observer_view (fold mark_initial hs s) = observer_view s"
  by (induction hs arbitrary: s) (simp_all add: mark_initial_def)

lemma fold_mark_initial_timers: "timers (fold mark_initial hs s) = timers s"
  by (induction hs arbitrary: s) (simp_all add: mark_initial_def)

lemma fold_mark_initial_clock: "clock (fold mark_initial hs s) = clock s"
  by (induction hs arbitrary: s) (simp_all add: mark_initial_def)

lemma fold_mark_initial_document: "document_windows (fold mark_initial hs s) = document_windows s"
  by (induction hs arbitrary: s) (simp_all add: mark_initial_def)

lemma fold_mark_initial_elements:
  "elements (fold mark_initial hs s) h =
     (if h \<in> set hs \<and> style_display (elements s h) \<noteq> ''none''
      then (elements s h)\<lparr>soundPlayed := Some ''true'', initialWindow := Some ''true''\<rparr>
      else elements s h)"
  by (induction hs arbitrary: s) (auto simp: mark_initial_def)




lemma setup_facts:
  shows setup_timers: "timers (setupWindowsSounds s) = timers s @ [(clock s + 3000, ClearInitialFlags)]"
    and setup_clock: "clock (setupWindowsSounds s) = clock s"
    and setup_view: "observer_view (setupWindowsSounds s) = observer_view s"
    and setup_document: "document_windows (setupWindowsSounds s) = document_windows s"
    and setup_elements: "initially_visible s h \<Longrightarrow> elements (setupWindowsSounds s) h
          = (elements s h)\<lparr>soundPlayed := Some ''true'', initialWindow := Some ''true''\<rparr>"
  by (simp_all add: setupWindowsSounds_def fold_mark_initial_timers fold_mark_initial_clock
      fold_mark_initial_view fold_mark_initial_document fold_mark_initial_elements initially_visible_def)






section \<open>Properties of the visualizer\<close>

lemma pulse_bounds: "0.8 \<le> pulse t playing \<and> pulse t playing \<le> 1.2"
proof (cases playing)
  case True
  have "- 1 \<le> sin (3 * t)" "sin (3 * t) \<le> 1"
    by simp_all
  then have "0.8 \<le> 1.0 + 0.2 * sin (3 * t) \<and> 1.0 + 0.2 * sin (3 * t) \<le> (1.2 :: real)"
    by linarith
  then show ?thesis
    using True by (simp add: pulse_def)
next
  case False
  then show ?thesis by (simp add: pulse_def)
qed

lemma styleMultiplier_values:
  "styleMultiplier 0 = 0.3" "styleMultiplier 1 = 0.7" "styleMultiplier 2 = 1.2"
  by (simp_all add: styleMultiplier_def intensities_def)

lemma dispatch_playback_update:
  "snd (dispatchEvent ''playback-update'' (JObj [(''isPlaying'', v)]) s)
     = s\<lparr>delivered := delivered s @ notice v s\<rparr>"
  by (simp add: dispatchEvent_def notice_def listeners_of_def split: option.splits)

lemma update_modal_fields [simp]:
  "isPlaying (update_modal s) = isPlaying s"
  "intensity (update_modal s) = intensity s"
  "delivered (update_modal s) = delivered s"
  "eventListeners (update_modal s) = eventListeners s"
  "commands (update_modal s) = commands s"
  "modalVisualizer (update_modal s) = map_option (\<lambda>m. isPlaying s) (modalVisualizer s)"
  "lastPlaybackState (update_modal s) = lastPlaybackState s"
  "lastIframeClickTime (update_modal s) = lastIframeClickTime s"
  "spotifyController (update_modal s) = spotifyController s"
  "visualizationIntensity (update_modal s) = visualizationIntensity s"
  "material (update_modal s) = material s"
  by (simp_all add: update_modal_def split: option.splits)

lemma listeners_of_update_modal [simp]: "listeners_of (update_modal s) = listeners_of s"
  by (simp add: listeners_of_def)

lemma updatePlaybackStatus_eq:
  "updatePlaybackStatus arg s =
     s\<lparr>isPlaying := effective arg s,
       statusElement := map_option (\<lambda>e. if truthy (effective arg s) then (''Playing'', ''status-playing'')
                                      else (''Paused'', ''status-paused'')) (statusElement s),
       debugButton := map_option (\<lambda>b. if truthy (effective arg s) then ''Pause'' else ''Play'') (debugButton s),
       intensity := baseIntensity (truthy (effective arg s)),
       modalVisualizer := map_option (\<lambda>m. effective arg s) (modalVisualizer s),
       delivered := delivered s @ notice (effective arg s) s\<rparr>"
proof -
  define v where "v = effective arg s"
  define s1 where "s1 = (if (if arg = JUndefined then JNull else arg) \<noteq> JNull
                         then s\<lparr>isPlaying := (if arg = JUndefined then JNull else arg)\<rparr> else s)"
  define s2 where "s2 = (case statusElement s1 of None \<Rightarrow> s1
     | Some e \<Rightarrow> s1\<lparr>statusElement := Some (if truthy (isPlaying s1) then (''Playing'', ''status-playing'')
                          else (''Paused'', ''status-paused''))\<rparr>)"
  define s3 where "s3 = (case debugButton s2 of None \<Rightarrow> s2
     | Some b \<Rightarrow> s2\<lparr>debugButton := Some (if truthy (isPlaying s2) then ''Pause'' else ''Play'')\<rparr>)"
  define s4 where "s4 = s3\<lparr>intensity := (if truthy (isPlaying s3) then 1.0 else 0.5)\<rparr>"
  define s5 where "s5 = update_modal s4"
  have unfold: "updatePlaybackStatus arg s
      = snd (dispatchEvent ''playback-update'' (JObj [(''isPlaying'', isPlaying s5)]) s5)"
    unfolding updatePlaybackStatus_def Let_def s5_def s4_def s3_def s2_def s1_def ..
  have e1: "s1 = s\<lparr>isPlaying := v\<rparr>"
    by (simp add: s1_def v_def effective_def)
  have e2: "s2 = s1\<lparr>statusElement := map_option (\<lambda>e. if truthy v then (''Playing'', ''status-playing'')
                                      else (''Paused'', ''status-paused'')) (statusElement s)\<rparr>"
    by (cases "statusElement s") (simp_all add: s2_def e1)
  have e3: "s3 = s2\<lparr>debugButton := map_option (\<lambda>b. if truthy v then ''Pause'' else ''Play'') (debugButton s)\<rparr>"
    by (cases "debugButton s") (simp_all add: s3_def e2 e1)
  have e4: "s4 = s3\<lparr>intensity := baseIntensity (truthy v)\<rparr>"
    by (simp add: s4_def e3 e2 e1 baseIntensity_def)
  have e5: "s5 = s4\<lparr>modalVisualizer := map_option (\<lambda>m. v) (modalVisualizer s)\<rparr>"
    by (cases "modalVisualizer s") (simp_all add: s5_def update_modal_def e4 e3 e2 e1)
  have p5: "isPlaying s5 = v" "delivered s5 = delivered s" "notice v s5 = notice v s"
    by (simp_all add: e5 e4 e3 e2 e1 notice_def listeners_of_def)
  have "updatePlaybackStatus arg s = s5\<lparr>delivered := delivered s @ notice v s\<rparr>"
    by (simp only: unfold p5 dispatch_playback_update)
  then show ?thesis
    by (simp add: e5 e4 e3 e2 e1 v_def)
qed

lemma updatePlaybackStatus_fields:
  "isPlaying (updatePlaybackStatus arg s) = effective arg s"
  "intensity (updatePlaybackStatus arg s) = baseIntensity (truthy (effective arg s))"
  "delivered (updatePlaybackStatus arg s) = delivered s @ notice (effective arg s) s"
  "modalVisualizer (updatePlaybackStatus arg s) = map_option (\<lambda>m. effective arg s) (modalVisualizer s)"
  "commands (updatePlaybackStatus arg s) = commands s"
  "eventListeners (updatePlaybackStatus arg s) = eventListeners s"
  "lastPlaybackState (updatePlaybackStatus arg s) = lastPlaybackState s"
  "lastIframeClickTime (updatePlaybackStatus arg s) = lastIframeClickTime s"
  "spotifyController (updatePlaybackStatus arg s) = spotifyController s"
  "spotifyFrame (updatePlaybackStatus arg s) = spotifyFrame s"
  "visualizationIntensity (updatePlaybackStatus arg s) = visualizationIntensity s"
  "material (updatePlaybackStatus arg s) = material s"
  "kaleidoscopePattern (updatePlaybackStatus arg s) = kaleidoscopePattern s"
  "localStorage (updatePlaybackStatus arg s) = localStorage s"
  "storage_denied (updatePlaybackStatus arg s) = storage_denied s"
  by (simp_all add: updatePlaybackStatus_eq)

lemma listeners_of_updatePlaybackStatus [simp]:
  "listeners_of (updatePlaybackStatus arg s) = listeners_of s"
  by (simp add: listeners_of_def updatePlaybackStatus_fields)

lemma command_player_eq:
  "\<exists>cs. command_player v s = s\<lparr>commands := commands s @ cs\<rparr>
        \<and> (cs = []) = (case spotifyController s of
                          Some c \<Rightarrow> (if truthy v then playFromClickEvent_throws c else pause_throws c)
                                      \<and> toggle_throws c
                        | None \<Rightarrow> spotifyFrame s \<noteq> Some False)"
  by (cases "spotifyController s"; cases "spotifyFrame s")
    (auto simp: command_player_def send_command_def)




lemma effective_JBool [simp]: "effective (JBool b) s = JBool b"
  by (simp add: effective_def)

lemma notice_intensity [simp]: "notice v (s\<lparr>intensity := x\<rparr>) = notice v s"
  by (simp add: notice_def listeners_of_def)

lemma notice_commands [simp]: "notice v (s\<lparr>commands := cs\<rparr>) = notice v s"
  by (simp add: notice_def listeners_of_def)

lemma notice_isPlaying [simp]: "notice v (s\<lparr>isPlaying := w\<rparr>) = notice v s"
  by (simp add: notice_def listeners_of_def)












lemma polled_value_isPaused [simp]:
  "polled_value (JObj [(''isPaused'', JBool p)]) = JBool (\<not> p)"
  by (simp add: polled_value_def js_not_def)


lemma toString_small:
  "toString 0 = [48]" "toString 1 = [49]" "toString 2 = [50]" "toString 3 = [51]" "toString 4 = [52]"
  by (simp_all add: toString_def digits_of.simps [of 0] digits_of.simps [of "Suc 0"] digits_of.simps [of 2]
      digits_of.simps [of 3] digits_of.simps [of 4])

lemma parseInt_small:
  "parseInt [48] = Some 0" "parseInt [49] = Some 1" "parseInt [50] = Some 2"
  "parseInt [51] = Some 3" "parseInt [52] = Some 4"
  by (simp_all add: parseInt_def Let_def is_white_space_def digit_value_def)

lemma parseInt_toString:
  "0 \<le> i \<Longrightarrow> i \<le> 4 \<Longrightarrow> parseInt (toString i) = Some i"
proof -
  assume "0 \<le> i" "i \<le> 4"
  then consider "i = 0" | "i = 1" | "i = 2" | "i = 3" | "i = 4"
    by linarith
  then show ?thesis
    by cases (simp_all add: toString_small parseInt_small)
qed

lemma updateVisualizationStyle_fields:
  "visualizationIntensity (updateVisualizationStyle style s)
     = (if 0 \<le> style \<and> style < 3 then Some (intensities ! nat style) else None)"
  "kaleidoscopePattern (updateVisualizationStyle style s) = kaleidoscopePattern s"
  "intensity (updateVisualizationStyle style s) = intensity s"
  "isPlaying (updateVisualizationStyle style s) = isPlaying s"
  "storage_denied (updateVisualizationStyle style s) = storage_denied s"
  "localStorage (updateVisualizationStyle style s)
     = (if storage_denied s then localStorage s
        else (localStorage s)(''wmp_viz_style'' := Some (toString style)))"
  by (simp_all add: updateVisualizationStyle_def Let_def setItem_def split: option.splits)

lemma updateKaleidoscopePattern_fields:
  "kaleidoscopePattern (updateKaleidoscopePattern pattern s) = pattern"
  "visualizationIntensity (updateKaleidoscopePattern pattern s) = visualizationIntensity s"
  "intensity (updateKaleidoscopePattern pattern s) = intensity s"
  "isPlaying (updateKaleidoscopePattern pattern s) = isPlaying s"
  "storage_denied (updateKaleidoscopePattern pattern s) = storage_denied s"
  "localStorage (updateKaleidoscopePattern pattern s)
     = (if storage_denied s then localStorage s
        else (localStorage s)(''wmp_kaleido_pattern'' := Some (toString pattern)))"
  by (simp_all add: updateKaleidoscopePattern_def Let_def setItem_def split: option.splits)

lemma restore_style_eq:
  "restore_style s =
     (if storage_denied s then Inl ExternalError
      else if usable 0 2 (localStorage s ''wmp_viz_style'')
      then Inr (updateVisualizationStyle (the (parseInt (the (localStorage s ''wmp_viz_style'')))) s)
      else Inr s)"
  by (simp add: restore_style_def getItem_def usable_def split: option.splits)

lemma restore_pattern_eq:
  "restore_pattern s =
     (if storage_denied s then Inl ExternalError
      else if usable 1 4 (localStorage s ''wmp_kaleido_pattern'')
      then Inr (updateKaleidoscopePattern (the (parseInt (the (localStorage s ''wmp_kaleido_pattern'')))) s)
      else Inr s)"
  by (simp add: restore_pattern_def getItem_def usable_def split: option.splits)

lemma restore_preferences_eq:
  "restore_preferences s =
     (if storage_denied s then s
      else (let s1 = (if usable 0 2 (localStorage s ''wmp_viz_style'')
                      then updateVisualizationStyle (the (parseInt (the (localStorage s ''wmp_viz_style'')))) s
                      else s)
            in if usable 1 4 (localStorage s ''wmp_kaleido_pattern'')
               then updateKaleidoscopePattern (the (parseInt (the (localStorage s ''wmp_kaleido_pattern'')))) s1
               else s1))"
  by (simp add: restore_preferences_def restore_style_eq restore_pattern_eq Let_def
      updateVisualizationStyle_fields)

lemma new_visualizer_fields:
  "visualizationIntensity (new_visualizer ctl frame modal listeners storage denied) = Some 1"
  "kaleidoscopePattern (new_visualizer ctl frame modal listeners storage denied) = 1"
  "localStorage (new_visualizer ctl frame modal listeners storage denied) = storage"
  "storage_denied (new_visualizer ctl frame modal listeners storage denied) = denied"
  by (simp_all add: new_visualizer_def)

lemma usable_written:
  "0 \<le> lo \<Longrightarrow> hi \<le> 4 \<Longrightarrow> lo \<le> i \<Longrightarrow> i \<le> hi \<Longrightarrow> usable lo hi (Some (toString i))"
  by (simp add: usable_def parseInt_toString)


lemma effective_intensity [simp]: "effective v (s\<lparr>intensity := x\<rparr>) = effective v s"
  by (simp add: effective_def)

lemma utf16_simps [simp]: "utf16 [] = []" "utf16 (c # cs) = of_char c # utf16 cs"
  by (simp_all add: utf16_def)

lemma parseInt_white_space:
  "\<forall>c\<in>set ws. is_white_space c \<Longrightarrow> parseInt (ws @ str) = parseInt str"
  by (simp add: parseInt_def dropWhile_append2)

lemma parseInt_digit_prefix:
  assumes "0 \<le> i" and "i \<le> 4"
    and "rest = [] \<or> digit_value 10 (hd rest) = None \<and> (i = 0 \<longrightarrow> hd rest \<noteq> 120 \<and> hd rest \<noteq> 88)"
  shows "parseInt (toString i @ rest) = Some i"
proof -
  consider "i = 0" | "i = 1" | "i = 2" | "i = 3" | "i = 4"
    using assms(1,2) by linarith
  then show ?thesis
    using assms(3)
    by cases
      (cases rest; simp add: toString_small parseInt_def Let_def is_white_space_def digit_value_def)+
qed

lemma restore_preferences_denied: "storage_denied s \<Longrightarrow> restore_preferences s = s"
  by (simp add: restore_preferences_eq)

lemma parseInt_examples: "parseInt (utf16 ''2abc'') = Some 2" "parseInt (utf16 ''2.9'') = Some 2"
  "parseInt (160 # utf16 ''2'') = Some 2" "parseInt (utf16 ''abc'') = None" "parseInt (utf16 ''1e3'') = Some 1"
  by (simp_all add: parseInt_def Let_def is_white_space_def digit_value_def)

section \<open>The claims\<close>







text \<open>
  C3.  \<^verbatim>\<open>togglePlayback\<close> always returns, and it returns the negation of the truth value of
  \<^verbatim>\<open>isPlaying\<close> as it was at the call.  In the state it leaves, \<^verbatim>\<open>isPlaying\<close> is that boolean,
  \<^verbatim>\<open>intensity\<close> is the base intensity of that boolean, the modal visualizer (if there is one)
  holds it, and the listeners of \<^verbatim>\<open>playback-update\<close> were called with it twice (once by
  \<^verbatim>\<open>updatePlaybackStatus\<close>, once by \<^verbatim>\<open>togglePlayback\<close> itself), whether those listeners
  return or throw.  None of this depends on the command channels: the list of commands that
  got through is empty exactly when the controller's play/pause and its \<^verbatim>\<open>toggle\<close> both
  throw, or, without a controller, when there is no iframe or \<^verbatim>\<open>postMessage\<close> throws; the
  local state is the same in every case.
\<close>

theorem toggle_is_optimistic:
  "\<exists>s'. togglePlayback s = Inr (JBool (\<not> truthy (isPlaying s)), s')
       \<and> isPlaying s' = JBool (\<not> truthy (isPlaying s))
       \<and> intensity s' = baseIntensity (\<not> truthy (isPlaying s))
       \<and> modalVisualizer s' = map_option (\<lambda>m. JBool (\<not> truthy (isPlaying s))) (modalVisualizer s)
       \<and> delivered s'
           = delivered s @ notice (JBool (\<not> truthy (isPlaying s))) s
                         @ notice (JBool (\<not> truthy (isPlaying s))) s
       \<and> (\<exists>cs. commands s' = commands s @ cs
              \<and> (cs = []) = (case spotifyController s of
                          Some c \<Rightarrow> (if truthy (isPlaying s) then pause_throws c else playFromClickEvent_throws c)
                                      \<and> toggle_throws c
                        | None \<Rightarrow> spotifyFrame s \<noteq> Some False))"
proof -
  let ?v = "JBool (\<not> truthy (isPlaying s))"
  obtain cs where cs: "command_player ?v s = s\<lparr>commands := commands s @ cs\<rparr>"
    "(cs = []) = (case spotifyController s of
                          Some c \<Rightarrow> (if truthy ?v then playFromClickEvent_throws c else pause_throws c)
                                      \<and> toggle_throws c
                        | None \<Rightarrow> spotifyFrame s \<noteq> Some False)"
    using command_player_eq [of ?v s] by blast
  let ?s2 = "(s\<lparr>commands := commands s @ cs\<rparr>)\<lparr>isPlaying := ?v\<rparr>"
  let ?s3 = "updatePlaybackStatus JUndefined ?s2"
  let ?s4 = "update_modal ?s3"
  let ?s5 = "?s4\<lparr>delivered := delivered ?s4 @ notice (isPlaying ?s4) ?s4\<rparr>"
  have eff: "effective JUndefined ?s2 = ?v"
    by (simp add: effective_def)
  have l2: "notice w ?s2 = notice w s" for w
    by (simp add: notice_def listeners_of_def)
  have l4: "notice w ?s4 = notice w s" for w
    by (simp add: notice_def listeners_of_def updatePlaybackStatus_fields)
  have res: "togglePlayback s = Inr (isPlaying ?s5, ?s5)"
    by (simp add: togglePlayback_def Let_def js_not_def cs(1) dispatch_playback_update)
  have "isPlaying ?s5 = ?v"
    by (simp add: updatePlaybackStatus_fields eff)
  moreover have "intensity ?s5 = baseIntensity (\<not> truthy (isPlaying s))"
    by (simp add: updatePlaybackStatus_fields eff)
  moreover have "modalVisualizer ?s5 = map_option (\<lambda>m. ?v) (modalVisualizer s)"
    by (simp add: updatePlaybackStatus_fields eff option.map_comp o_def)
  moreover have "delivered ?s5 = delivered s @ notice ?v s @ notice ?v s"
    by (simp add: updatePlaybackStatus_fields eff l2 l4)
  moreover have "commands ?s5 = commands s @ cs"
    by (simp add: updatePlaybackStatus_fields)
  ultimately show ?thesis
    using res cs(2) by (intro exI [of _ ?s5]) (auto split: option.splits)
qed

theorem toggle_is_optimistic_witness:
  "togglePlayback
     (new_visualizer
        (Some \<lparr>playFromClickEvent_throws = True, pause_throws = True, toggle_throws = True\<rparr>)
        (Some True) (Some (JBool False)) (\<lambda>name. Some [Throws, Returns]) (\<lambda>key. None) True)
   \<noteq> Inl ExternalError
   \<and> (\<exists>s'. togglePlayback
        (new_visualizer
           (Some \<lparr>playFromClickEvent_throws = True, pause_throws = True, toggle_throws = True\<rparr>)
           (Some True) (Some (JBool False)) (\<lambda>name. Some [Throws, Returns]) (\<lambda>key. None) True)
        = Inr (JBool True, s')
        \<and> isPlaying s' = JBool True \<and> commands s' = [] \<and> length (delivered s') = 4)"
  using toggle_is_optimistic [of "new_visualizer
        (Some \<lparr>playFromClickEvent_throws = True, pause_throws = True, toggle_throws = True\<rparr>)
        (Some True) (Some (JBool False)) (\<lambda>name. Some [Throws, Returns]) (\<lambda>key. None) True"]
  by (auto simp: new_visualizer_def notice_def listeners_of_def)

text \<open>
  C4 (as amended).  In a frame rendered with the shader material, when the \<^verbatim>\<open>intensity\<close>
  field is in step with \<^verbatim>\<open>isPlaying\<close> (0.5 paused, 1.0 playing), the intensity uniform is
  baseIntensity(isPlaying) * m * pulse(t, isPlaying), where the style multiplier \<open>m\<close> is 1.0
  as long as no style was selected or restored and one of 0.3, 0.7, 1.2 afterwards, and the
  pulse is 1 + 0.2 sin(3t) while playing and 1 while paused.  The three style constants
  increase with the level, and the intensity is never negative.  (JavaScript's doubles are
  read as real numbers.)

  The claim as stated fails in every session that starts without a stored style: the
  multiplier is the constructor's 1.0, which is none of the three constants.
\<close>

theorem frame_intensity:
  assumes "in_step s"
    and "material s = Some u"
    and "visualizationIntensity s = Some m"
    and "m = 1 \<or> (\<exists>level<3. m = styleMultiplier level)"
  shows "material (animate t s)
           = Some (u\<lparr>iTime := t,
                     iIntensity := Some (baseIntensity (truthy (isPlaying s)) * m
                                          * pulse t (truthy (isPlaying s)))\<rparr>)
       \<and> 0 \<le> baseIntensity (truthy (isPlaying s)) * m * pulse t (truthy (isPlaying s))
       \<and> baseIntensity False = 0.5 \<and> baseIntensity True = 1.0
       \<and> pulse t False = 1 \<and> pulse t True = 1 + 0.2 * sin (3 * t)
       \<and> styleMultiplier 0 = 0.3 \<and> styleMultiplier 1 = 0.7 \<and> styleMultiplier 2 = 1.2
       \<and> styleMultiplier 0 < styleMultiplier 1 \<and> styleMultiplier 1 < styleMultiplier 2
       \<and> visualizationIntensity (new_visualizer ctl frame modal listeners storage denied) = Some 1
       \<and> (\<forall>level<3. visualizationIntensity (updateVisualizationStyle (int level) s)
                        = Some (styleMultiplier level))"
proof -
  let ?p = "truthy (isPlaying s)"
  have frame: "material (animate t s)
      = Some (u\<lparr>iTime := t, iIntensity := Some (baseIntensity ?p * m * pulse t ?p)\<rparr>)"
    using assms(1-3)
    by (simp add: animate_def in_step_def times_opt_def pulse_def Let_def mult.commute)
  have m0: "0 \<le> m"
    using assms(4) by (auto simp: styleMultiplier_def intensities_def less_Suc_eq numeral_3_eq_3)
  have "0 \<le> baseIntensity ?p" by (simp add: baseIntensity_def)
  moreover have "0 \<le> pulse t ?p" using pulse_bounds [of t ?p] by simp
  ultimately have nonneg: "0 \<le> baseIntensity ?p * m * pulse t ?p"
    using m0 by simp
  have upd: "\<forall>level<3. visualizationIntensity (updateVisualizationStyle (int level) s)
      = Some (styleMultiplier level)"
    by (simp add: updateVisualizationStyle_def Let_def setItem_def styleMultiplier_def
        split: option.splits)
  show ?thesis
    using frame nonneg upd styleMultiplier_values
    by (simp add: baseIntensity_def pulse_def new_visualizer_def)
qed

theorem frame_intensity_witness:
  "in_step (updateVisualizationStyle 2 fresh_session)
   \<and> visualizationIntensity (updateVisualizationStyle 2 fresh_session) = Some (styleMultiplier 2)
   \<and> iIntensity (the (material (animate 2 (updateVisualizationStyle 2 fresh_session))))
       = Some (0.5 * 1.2 * 1)"
proof -
  let ?s = "updateVisualizationStyle 2 fresh_session"
  let ?u = "\<lparr>iTime = 0, iIntensity = Some 0.6, iKaleidoscopePattern = 1\<rparr>"
  have h1: "in_step ?s"
    by (simp add: fresh_session_def loadShader_def new_visualizer_def in_step_def baseIntensity_def
        times_opt_def updateVisualizationStyle_def Let_def setItem_def)
  have h2: "material ?s = Some ?u"
    by (simp add: fresh_session_def loadShader_def new_visualizer_def
        times_opt_def updateVisualizationStyle_def Let_def setItem_def intensities_def)
  have h3: "visualizationIntensity ?s = Some (styleMultiplier 2)"
    by (simp add: fresh_session_def loadShader_def new_visualizer_def styleMultiplier_def
        updateVisualizationStyle_def Let_def setItem_def)
  have h4: "styleMultiplier 2 = 1 \<or> (\<exists>level<3. styleMultiplier 2 = styleMultiplier level)"
    by (rule disjI2) (rule exI [of _ 2], simp)
  have playing: "truthy (isPlaying ?s) = False"
    by (simp add: fresh_session_def loadShader_def new_visualizer_def
        updateVisualizationStyle_def Let_def setItem_def)
  show ?thesis
    using frame_intensity [OF h1 h2 h3 h4, of 2] h1 h3
    by (simp add: playing baseIntensity_def pulse_def styleMultiplier_values)
qed

theorem frame_intensity_counterexample:
  "isPlaying fresh_session = JBool False
   \<and> iIntensity (the (material (animate 0 fresh_session))) = Some 0.5
   \<and> baseIntensity False * styleMultiplier 0 * pulse 0 False \<noteq> 0.5
   \<and> baseIntensity False * styleMultiplier 1 * pulse 0 False \<noteq> 0.5
   \<and> baseIntensity False * styleMultiplier 2 * pulse 0 False \<noteq> 0.5"
  using styleMultiplier_values
  by (simp add: fresh_session_def loadShader_def new_visualizer_def animate_def times_opt_def
      Let_def baseIntensity_def pulse_def)

text \<open>
  C5 (as amended).  A session whose storage can be written selects a style in 0..2 and a
  pattern in 1..4 (in either order); a new session over the storage it leaves, after the
  \<^verbatim>\<open>load\<close> handler, has the same style multiplier and the same pattern, and the shader
  material created from it carries that pattern and 0.5 times that multiplier.  A stored
  value is used exactly when \<^verbatim>\<open>parseInt\<close> reads an integer of the range from it, and then
  that integer is restored.  \<^verbatim>\<open>parseInt\<close> skips leading white space and reads the longest
  run of digits, ignoring what follows: a digit of the range followed by anything but a
  digit is read as that digit.  A stored value that is absent, that \<^verbatim>\<open>parseInt\<close> reads as
  \<^verbatim>\<open>NaN\<close>, or that it reads as an integer out of range is not used: the style multiplier
  stays 1.0, the pattern stays 1, and with both values unusable, or with a storage that
  cannot be read, the \<^verbatim>\<open>load\<close> handler leaves the new session exactly as the constructor
  made it.

  The claim as stated fails for stored values that are not numbers, or are numbers out of
  range, and begin with a digit of the range: \<^verbatim>\<open>2abc\<close> and \<^verbatim>\<open>2.9\<close> restore style 2
  (multiplier 1.2), \<^verbatim>\<open>3rd\<close> restores pattern 3.
\<close>

theorem preferences_round_trip:
  "(0 \<le> style \<and> style \<le> 2 \<and> 1 \<le> pattern \<and> pattern \<le> 4 \<and> \<not> storage_denied s
      \<and> (written = updateKaleidoscopePattern pattern (updateVisualizationStyle style s)
           \<or> written = updateVisualizationStyle style (updateKaleidoscopePattern pattern s))
      \<and> session = restore_preferences (new_visualizer ctl frame modal listeners (localStorage written) False)
      \<longrightarrow> visualizationIntensity session = Some (styleMultiplier (nat style))
          \<and> visualizationIntensity written = Some (styleMultiplier (nat style))
          \<and> kaleidoscopePattern session = pattern
          \<and> kaleidoscopePattern written = pattern
          \<and> iKaleidoscopePattern (the (material (loadShader session))) = pattern
          \<and> iIntensity (the (material (loadShader session))) = Some (0.5 * styleMultiplier (nat style)))
   \<and> (\<not> usable 0 2 (storage ''wmp_viz_style'') \<longrightarrow>
        visualizationIntensity (restore_preferences (new_visualizer ctl frame modal listeners storage denied))
          = Some 1)
   \<and> (\<not> usable 1 4 (storage ''wmp_kaleido_pattern'') \<longrightarrow>
        kaleidoscopePattern (restore_preferences (new_visualizer ctl frame modal listeners storage denied)) = 1)
   \<and> (\<not> usable 0 2 (storage ''wmp_viz_style'') \<and> \<not> usable 1 4 (storage ''wmp_kaleido_pattern'') \<longrightarrow>
        restore_preferences (new_visualizer ctl frame modal listeners storage denied)
          = new_visualizer ctl frame modal listeners storage denied)
   \<and> \<not> usable lo hi None
   \<and> (parseInt v = None \<longrightarrow> \<not> usable lo hi (Some v))
   \<and> (parseInt v = Some i \<and> (i < lo \<or> hi < i) \<longrightarrow> \<not> usable lo hi (Some v))
   \<and> (parseInt v = Some i \<and> lo \<le> i \<and> i \<le> hi \<longrightarrow> usable lo hi (Some v))
   \<and> (storage ''wmp_viz_style'' = Some v \<and> parseInt v = Some i \<and> 0 \<le> i \<and> i \<le> 2 \<longrightarrow>
        visualizationIntensity (restore_preferences (new_visualizer ctl frame modal listeners storage False))
          = Some (styleMultiplier (nat i)))
   \<and> (storage ''wmp_kaleido_pattern'' = Some v \<and> parseInt v = Some i \<and> 1 \<le> i \<and> i \<le> 4 \<longrightarrow>
        kaleidoscopePattern (restore_preferences (new_visualizer ctl frame modal listeners storage False)) = i)
   \<and> restore_preferences (new_visualizer ctl frame modal listeners storage True)
       = new_visualizer ctl frame modal listeners storage True
   \<and> ((\<forall>c\<in>set ws. is_white_space c) \<longrightarrow> parseInt (ws @ v) = parseInt v)
   \<and> (0 \<le> i \<and> i \<le> 4
        \<and> (rest = [] \<or> digit_value 10 (hd rest) = None \<and> (i = 0 \<longrightarrow> hd rest \<noteq> 120 \<and> hd rest \<noteq> 88))
        \<longrightarrow> parseInt (toString i @ rest) = Some i)"
proof -
  have round: "visualizationIntensity session = Some (styleMultiplier (nat style))
          \<and> visualizationIntensity written = Some (styleMultiplier (nat style))
          \<and> kaleidoscopePattern session = pattern
          \<and> kaleidoscopePattern written = pattern
          \<and> iKaleidoscopePattern (the (material (loadShader session))) = pattern
          \<and> iIntensity (the (material (loadShader session))) = Some (0.5 * styleMultiplier (nat style))"
    if r: "0 \<le> style" "style \<le> 2" "1 \<le> pattern" "pattern \<le> 4" and w: "\<not> storage_denied s"
      and written: "written = updateKaleidoscopePattern pattern (updateVisualizationStyle style s)
           \<or> written = updateVisualizationStyle style (updateKaleidoscopePattern pattern s)"
      and session: "session = restore_preferences (new_visualizer ctl frame modal listeners (localStorage written) False)"
  proof -
    let ?n = "new_visualizer ctl frame modal listeners (localStorage written) False"
    have st: "localStorage written ''wmp_viz_style'' = Some (toString style)"
      and pt: "localStorage written ''wmp_kaleido_pattern'' = Some (toString pattern)"
      and wv: "visualizationIntensity written = Some (intensities ! nat style)"
      and wp: "kaleidoscopePattern written = pattern"
      using written w r
      by (auto simp: updateVisualizationStyle_fields updateKaleidoscopePattern_fields)
    have ps: "parseInt (toString style) = Some style" and pp: "parseInt (toString pattern) = Some pattern"
      using r by (simp_all add: parseInt_toString)
    have us: "usable 0 2 (Some (toString style))" and up: "usable 1 4 (Some (toString pattern))"
      using r by (simp_all add: usable_written)
    have e: "session = updateKaleidoscopePattern pattern (updateVisualizationStyle style ?n)"
      unfolding session
      by (simp add: restore_preferences_eq new_visualizer_fields st pt ps pp us up)
    have sv: "visualizationIntensity session = Some (intensities ! nat style)"
      and sp: "kaleidoscopePattern session = pattern"
      and si: "intensity session = 0.5"
      using r
      by (simp_all add: e updateVisualizationStyle_fields updateKaleidoscopePattern_fields new_visualizer_def)
    show ?thesis
      by (simp add: sv sp si wv wp loadShader_def times_opt_def styleMultiplier_def)
  qed
  have style_default:
    "visualizationIntensity (restore_preferences (new_visualizer ctl frame modal listeners storage denied)) = Some 1"
    if "\<not> usable 0 2 (storage ''wmp_viz_style'')"
    using that
    by (simp add: restore_preferences_eq new_visualizer_fields Let_def updateKaleidoscopePattern_fields)
  have pattern_default:
    "kaleidoscopePattern (restore_preferences (new_visualizer ctl frame modal listeners storage denied)) = 1"
    if "\<not> usable 1 4 (storage ''wmp_kaleido_pattern'')"
    using that
    by (simp add: restore_preferences_eq new_visualizer_fields Let_def updateVisualizationStyle_fields)
  have ignored: "restore_preferences (new_visualizer ctl frame modal listeners storage denied)
          = new_visualizer ctl frame modal listeners storage denied"
    if "\<not> usable 0 2 (storage ''wmp_viz_style'')" and "\<not> usable 1 4 (storage ''wmp_kaleido_pattern'')"
    using that by (simp add: restore_preferences_eq new_visualizer_fields)
  have corrupt: "\<not> usable lo hi None" "parseInt v = None \<longrightarrow> \<not> usable lo hi (Some v)"
    "parseInt v = Some i \<and> (i < lo \<or> hi < i) \<longrightarrow> \<not> usable lo hi (Some v)"
    "parseInt v = Some i \<and> lo \<le> i \<and> i \<le> hi \<longrightarrow> usable lo hi (Some v)"
    by (auto simp: usable_def)
  have style_used:
    "visualizationIntensity (restore_preferences (new_visualizer ctl frame modal listeners storage False))
          = Some (styleMultiplier (nat i))"
    if "storage ''wmp_viz_style'' = Some v \<and> parseInt v = Some i \<and> 0 \<le> i \<and> i \<le> 2"
  proof -
    have u: "usable 0 2 (storage ''wmp_viz_style'')"
      using that by (simp add: usable_def)
    show ?thesis
      using that u
      by (simp add: restore_preferences_eq new_visualizer_fields Let_def updateKaleidoscopePattern_fields
          updateVisualizationStyle_fields styleMultiplier_def)
  qed
  have pattern_used:
    "kaleidoscopePattern (restore_preferences (new_visualizer ctl frame modal listeners storage False)) = i"
    if "storage ''wmp_kaleido_pattern'' = Some v \<and> parseInt v = Some i \<and> 1 \<le> i \<and> i \<le> 4"
  proof -
    have u: "usable 1 4 (storage ''wmp_kaleido_pattern'')"
      using that by (simp add: usable_def)
    show ?thesis
      using that u
      by (simp add: restore_preferences_eq new_visualizer_fields Let_def updateKaleidoscopePattern_fields
          updateVisualizationStyle_fields)
  qed
  have denied: "restore_preferences (new_visualizer ctl frame modal listeners storage True)
       = new_visualizer ctl frame modal listeners storage True"
    by (simp add: restore_preferences_denied new_visualizer_fields)
  have ws: "(\<forall>c\<in>set ws. is_white_space c) \<longrightarrow> parseInt (ws @ v) = parseInt v"
    by (simp add: parseInt_white_space)
  have prefix: "0 \<le> i \<and> i \<le> 4
        \<and> (rest = [] \<or> digit_value 10 (hd rest) = None \<and> (i = 0 \<longrightarrow> hd rest \<noteq> 120 \<and> hd rest \<noteq> 88))
        \<longrightarrow> parseInt (toString i @ rest) = Some i"
    using parseInt_digit_prefix [of i rest] by blast
  show ?thesis
    using round style_default pattern_default ignored corrupt style_used pattern_used denied ws prefix
    by blast
qed

theorem preferences_round_trip_witness:
  "\<not> storage_denied fresh_session
   \<and> visualizationIntensity
        (restore_preferences (new_visualizer None None None (\<lambda>name. None)
           (localStorage (updateKaleidoscopePattern 3 (updateVisualizationStyle 2 fresh_session))) False))
       = Some 1.2
   \<and> kaleidoscopePattern
        (restore_preferences (new_visualizer None None None (\<lambda>name. None)
           (localStorage (updateKaleidoscopePattern 3 (updateVisualizationStyle 2 fresh_session))) False))
       = 3
   \<and> parseInt (utf16 ''abc'') = None \<and> parseInt (utf16 ''7'') = Some 7
   \<and> \<not> usable 0 2 (Some (utf16 ''abc'')) \<and> \<not> usable 1 4 (Some (utf16 ''7''))
   \<and> restore_preferences (new_visualizer None None None (\<lambda>name. None)
         ((\<lambda>key. None)(''wmp_viz_style'' := Some (utf16 ''abc''), ''wmp_kaleido_pattern'' := Some (utf16 ''7'')))
         False)
       = new_visualizer None None None (\<lambda>name. None)
         ((\<lambda>key. None)(''wmp_viz_style'' := Some (utf16 ''abc''), ''wmp_kaleido_pattern'' := Some (utf16 ''7'')))
         False
   \<and> usable 1 4 (Some (utf16 ''4''))
   \<and> visualizationIntensity
        (restore_preferences (new_visualizer None None None (\<lambda>name. None)
           ((\<lambda>key. None)(''wmp_viz_style'' := Some (utf16 ''1''), ''wmp_kaleido_pattern'' := Some (utf16 ''4'')))
           False))
       = Some 0.7
   \<and> kaleidoscopePattern
        (restore_preferences (new_visualizer None None None (\<lambda>name. None)
           ((\<lambda>key. None)(''wmp_viz_style'' := Some (utf16 ''1''), ''wmp_kaleido_pattern'' := Some (utf16 ''4'')))
           False))
       = 4
   \<and> parseInt ([32, 160] @ utf16 ''2'') = parseInt (utf16 ''2'')
   \<and> parseInt (toString 2 @ utf16 ''px'') = Some 2"
proof -
  let ?written = "updateKaleidoscopePattern 3 (updateVisualizationStyle 2 fresh_session)"
  let ?session = "restore_preferences (new_visualizer None None None (\<lambda>name. None) (localStorage ?written) False)"
  let ?storage = "(\<lambda>key. None)(''wmp_viz_style'' := Some (utf16 ''abc''), ''wmp_kaleido_pattern'' := Some (utf16 ''7''))"
  let ?good = "(\<lambda>key. None)(''wmp_viz_style'' := Some (utf16 ''1''), ''wmp_kaleido_pattern'' := Some (utf16 ''4''))"
  note T = preferences_round_trip
  have open_storage: "\<not> storage_denied fresh_session"
    by (simp add: fresh_session_def loadShader_def new_visualizer_def)
  have abc: "parseInt (utf16 ''abc'') = None"
    by (rule parseInt_examples)
  have nums: "parseInt (utf16 ''7'') = Some 7" "parseInt (utf16 ''1'') = Some 1" "parseInt (utf16 ''4'') = Some 4"
    by (simp_all add: parseInt_def Let_def is_white_space_def digit_value_def)
  have level: "styleMultiplier (nat 2) = 1.2" "styleMultiplier (nat 1) = 0.7"
    using styleMultiplier_values by simp_all
  have round: "visualizationIntensity ?session = Some (styleMultiplier (nat 2))
          \<and> visualizationIntensity ?written = Some (styleMultiplier (nat 2))
          \<and> kaleidoscopePattern ?session = 3
          \<and> kaleidoscopePattern ?written = 3
          \<and> iKaleidoscopePattern (the (material (loadShader ?session))) = 3
          \<and> iIntensity (the (material (loadShader ?session))) = Some (0.5 * styleMultiplier (nat 2))"
    by (rule T [where style = 2 and pattern = 3 and s = fresh_session, THEN conjunct1, THEN mp])
      (simp add: open_storage)
  have u1: "\<not> usable 0 2 (Some (utf16 ''abc''))"
    by (rule T [where v = "utf16 ''abc''", THEN conjunct2, THEN conjunct2, THEN conjunct2,
          THEN conjunct2, THEN conjunct2, THEN conjunct1, THEN mp])
      (rule abc)
  have u2: "\<not> usable 1 4 (Some (utf16 ''7''))"
    by (rule T [where v = "utf16 ''7''" and i = 7, THEN conjunct2, THEN conjunct2,
          THEN conjunct2, THEN conjunct2, THEN conjunct2, THEN conjunct2, THEN conjunct1, THEN mp])
      (simp add: nums del: utf16_simps)
  have u3: "usable 1 4 (Some (utf16 ''4''))"
    by (rule T [where v = "utf16 ''4''" and i = 4, THEN conjunct2, THEN conjunct2,
          THEN conjunct2, THEN conjunct2, THEN conjunct2, THEN conjunct2, THEN conjunct2,
          THEN conjunct1, THEN mp])
      (simp add: nums del: utf16_simps)
  have ignored: "restore_preferences (new_visualizer None None None (\<lambda>name. None) ?storage False)
      = new_visualizer None None None (\<lambda>name. None) ?storage False"
    by (rule T [THEN conjunct2, THEN conjunct2, THEN conjunct2, THEN conjunct1, THEN mp])
      (simp add: u1 u2 del: utf16_simps)
  have s1: "visualizationIntensity (restore_preferences (new_visualizer None None None (\<lambda>name. None) ?good False))
      = Some (styleMultiplier (nat 1))"
    by (rule T [where v = "utf16 ''1''" and i = 1, THEN conjunct2, THEN conjunct2,
          THEN conjunct2, THEN conjunct2, THEN conjunct2, THEN conjunct2, THEN conjunct2,
          THEN conjunct2, THEN conjunct1, THEN mp])
      (simp add: nums del: utf16_simps)
  have p4: "kaleidoscopePattern (restore_preferences (new_visualizer None None None (\<lambda>name. None) ?good False)) = 4"
    by (rule T [where v = "utf16 ''4''" and i = 4, THEN conjunct2, THEN conjunct2,
          THEN conjunct2, THEN conjunct2, THEN conjunct2, THEN conjunct2, THEN conjunct2,
          THEN conjunct2, THEN conjunct2, THEN conjunct1, THEN mp])
      (simp add: nums del: utf16_simps)
  have w: "parseInt ([32, 160] @ utf16 ''2'') = parseInt (utf16 ''2'')"
    by (rule T [THEN conjunct2, THEN conjunct2,
          THEN conjunct2, THEN conjunct2, THEN conjunct2, THEN conjunct2, THEN conjunct2,
          THEN conjunct2, THEN conjunct2, THEN conjunct2, THEN conjunct2, THEN conjunct1, THEN mp])
      (simp add: is_white_space_def)
  have px: "parseInt (toString 2 @ utf16 ''px'') = Some 2"
    by (rule T [THEN conjunct2, THEN conjunct2,
          THEN conjunct2, THEN conjunct2, THEN conjunct2, THEN conjunct2, THEN conjunct2,
          THEN conjunct2, THEN conjunct2, THEN conjunct2, THEN conjunct2, THEN conjunct2, THEN mp])
      (simp add: digit_value_def)
  show ?thesis
    using round
    by (simp only: level open_storage abc nums u1 u2 u3 ignored s1 p4 w px simp_thms)
qed

theorem preferences_round_trip_counterexample:
  "parseInt (utf16 ''2abc'') = Some 2
   \<and> visualizationIntensity (new_visualizer None None None (\<lambda>name. None)
         ((\<lambda>key. None)(''wmp_viz_style'' := Some (utf16 ''2abc''))) False) = Some 1
   \<and> visualizationIntensity
        (restore_preferences (new_visualizer None None None (\<lambda>name. None)
           ((\<lambda>key. None)(''wmp_viz_style'' := Some (utf16 ''2abc''))) False))
       = Some 1.2
   \<and> parseInt (utf16 ''2.9'') = Some 2
   \<and> visualizationIntensity
        (restore_preferences (new_visualizer None None None (\<lambda>name. None)
           ((\<lambda>key. None)(''wmp_viz_style'' := Some (utf16 ''2.9''))) False))
       = Some 1.2
   \<and> kaleidoscopePattern
        (restore_preferences (new_visualizer None None None (\<lambda>name. None)
           ((\<lambda>key. None)(''wmp_kaleido_pattern'' := Some (utf16 ''3rd''))) False))
       = 3"
proof -
  have p: "parseInt (utf16 ''3rd'') = Some 3"
    by (simp add: parseInt_def Let_def is_white_space_def digit_value_def)
  have u: "usable 0 2 (Some (utf16 ''2abc''))" "usable 0 2 (Some (utf16 ''2.9''))"
    "usable 1 4 (Some (utf16 ''3rd''))" "\<not> usable 1 4 None" "\<not> usable 0 2 None"
    by (simp_all add: usable_def parseInt_examples p del: utf16_simps)
  show ?thesis
    using u
    by (simp add: restore_preferences_eq new_visualizer_fields Let_def updateKaleidoscopePattern_fields
        updateVisualizationStyle_fields parseInt_examples p intensities_def del: utf16_simps)
qed







text \<open>
  C8.  A \<^verbatim>\<open>critical\<close> request through \<^verbatim>\<open>playForWindow\<close> was let through for a window (no
  close action was in progress).  During the following 1500 ms the \<^verbatim>\<open>criticalSoundPlayed\<close>
  marker of the window is still set, and a \<^verbatim>\<open>windowClose\<close> request through
  \<^verbatim>\<open>playForWindow\<close> for the same window returns false and starts no sound.
\<close>

theorem windowClose_suppressed_after_critical:
  assumes "closingInProgress (elements s h) \<noteq> Some ''true''"
    and "\<forall>t\<in>set (timers s). snd t \<noteq> XP_ClearClosing h \<and> snd t \<noteq> SM_ClearClosing h"
    and "dt < 1500"
  shows "criticalSoundPlayed (elements (advance dt (snd (playForWindow (Some h) ''critical'' v d s))) h)
           = Some ''true''
       \<and> fst (playForWindow (Some h) ''windowClose'' v' d'
                (advance dt (snd (playForWindow (Some h) ''critical'' v d s)))) = False
       \<and> played (snd (playForWindow (Some h) ''windowClose'' v' d'
                (advance dt (snd (playForWindow (Some h) ''critical'' v d s)))))
           = played (snd (playForWindow (Some h) ''critical'' v d s))"
proof -
  let ?s1 = "snd (playForWindow (Some h) ''critical'' v d s)"
  let ?s2 = "advance dt ?s1"
  have clk: "clock ?s1 = clock s"
    using assms(1) by (simp add: playForWindow_def Let_def sm_play_eq sm_addActiveWindow_def)
  have lt: "clock ?s1 + dt < clock s + 1500"
    using assms(3) clk by simp
  have "closing_until h (clock s + 1500) ?s1"
    using assms(1,2)
    by (simp add: closing_until_def playForWindow_def Let_def sm_play_eq sm_addActiveWindow_def)
  then have "closing_until h (clock s + 1500) ?s2"
    unfolding advance_def using lt by (rule closing_until_run_until)
  then have closing: "closingInProgress (elements ?s2 h) = Some ''true''"
    by (simp add: closing_until_def)
  have "criticalSoundPlayed (elements (run_until (clock ?s1 + dt) ?s1) h) = Some ''true''
      \<and> quiet_until (\<lambda>cb. cb = SM_ClearClosing h) (clock s + 1500) (run_until (clock ?s1 + dt) ?s1)"
    using critical_accepted_marker(2) [OF assms(1,2)] lt
  proof (rule run_until_preserves)
    show "criticalSoundPlayed (elements ?s1 h) = Some ''true''"
      by (rule critical_accepted_marker(1) [OF assms(1,2)])
  qed (simp_all add: fire_criticalSoundPlayed)
  then have marker: "criticalSoundPlayed (elements ?s2 h) = Some ''true''"
    by (simp add: advance_def)
  have "played ?s2 = played ?s1"
    by (simp add: advance_def run_until_played)
  with marker closing show ?thesis
    using windowClose_suppressed_by_marker [of ?s2 h v' d'] by simp
qed

theorem windowClose_suppressed_after_critical_witness:
  "closingInProgress (elements loaded_page 0) \<noteq> Some ''true''
   \<and> fst (playForWindow (Some 0) ''critical'' 0.6 1500 loaded_page)
   \<and> criticalSoundPlayed (elements (advance 1499 (snd (playForWindow (Some 0) ''critical'' 0.6 1500 loaded_page))) 0)
           = Some ''true''
   \<and> fst (playForWindow (Some 0) ''windowClose'' 0.6 1500
           (advance 1499 (snd (playForWindow (Some 0) ''critical'' 0.6 1500 loaded_page)))) = False"
  using windowClose_suppressed_after_critical [of loaded_page 0 1499 "0.6" 1500 "0.6" 1500]
  by (simp add: loaded_page_def wmp_window_def playForWindow_def Let_def sm_play_eq
      sm_addActiveWindow_def plays_sm_def plays_xp_def xp_sound_table_def)

text \<open>
  C9 (as amended).  \<^verbatim>\<open>playForWindow\<close> with a null or undefined window is plain
  \<^verbatim>\<open>play(soundName, volume)\<close>: same result, same state.  It reads no window marker and no
  active-window set.  It starts the sound exactly when \<^verbatim>\<open>play\<close> does: the manager is
  enabled, the volume is between 0 and 1 and, for a sound that the global
  \<^verbatim>\<open>window.soundManager\<close> knows, that manager is enabled, \<^verbatim>\<open>preventAllSounds\<close> is not set
  (unless the sound is \<^verbatim>\<open>critical\<close>) and its audio element works; for any other sound, the
  manager's own audio element exists and works.

  The claim as stated ("plays whenever sounds are enabled and the sound exists") fails in the
  second after a click on a close button: both managers are enabled and both know
  \<^verbatim>\<open>notify\<close>, yet the delegated call is refused by the \<^verbatim>\<open>preventAllSounds\<close> guard.
\<close>

theorem playForWindow_without_window:
  "playForWindow None soundName volume duration s = sm_play soundName volume s
   \<and> sm_play soundName volume s
       = (plays_sm soundName volume s,
          if plays_sm soundName volume s then s\<lparr>played := played s @ [(soundName, volume)]\<rparr> else s)
   \<and> plays_sm soundName volume s
       = (sm_enabled s \<and> 0 \<le> volume \<and> volume \<le> 1 \<and>
          (if xp_present s \<and> xp_sounds s soundName \<noteq> None
           then xp_enabled s \<and> (preventAllSounds s \<longrightarrow> soundName = ''critical'')
                \<and> xp_sounds s soundName = Some Working
           else sm_sounds s soundName = Some Working))
   \<and> fst (playForWindow None soundName volume duration
             (s\<lparr>elements := e, xp_activeWindows := a, sm_activeWindows := a'\<rparr>))
       = fst (playForWindow None soundName volume duration s)"
  by (auto simp: playForWindow_def sm_play_eq plays_sm_def plays_xp_def)

theorem playForWindow_without_window_witness:
  "playForWindow None ''notify'' 0.5 1000 loaded_page
     = (True, loaded_page\<lparr>played := [(''notify'', 0.5)]\<rparr>)
   \<and> playForWindow None ''notify'' 0.5 1000 (loaded_page\<lparr>sm_enabled := False\<rparr>)
     = (False, loaded_page\<lparr>sm_enabled := False\<rparr>)
   \<and> playForWindow None ''notify'' 1.5 1000 loaded_page = (False, loaded_page)"
  using playForWindow_without_window [of "''notify''" "0.5" 1000 loaded_page]
    playForWindow_without_window [of "''notify''" "0.5" 1000 "loaded_page\<lparr>sm_enabled := False\<rparr>"]
    playForWindow_without_window [of "''notify''" "1.5" 1000 loaded_page]
  by (simp add: loaded_page_def xp_sound_table_def sm_sound_table_def)

theorem playForWindow_without_window_counterexample:
  "sm_enabled (closeButton_click 0 loaded_page)
   \<and> xp_enabled (closeButton_click 0 loaded_page)
   \<and> sm_sounds (closeButton_click 0 loaded_page) ''notify'' = Some Working
   \<and> xp_sounds (closeButton_click 0 loaded_page) ''notify'' = Some Working
   \<and> fst (playForWindow None ''notify'' 0.5 1000 (closeButton_click 0 loaded_page)) = False"
  by (simp add: closeButton_click_def Let_def playSoundForWindow_def xp_play_eq xp_addActiveWindow_def
      playForWindow_def sm_play_eq plays_sm_def plays_xp_def
      loaded_page_def wmp_window_def xp_sound_table_def sm_sound_table_def)

text \<open>
  C10 (as amended).  While \<^verbatim>\<open>preventAllSounds\<close> is set, \<^verbatim>\<open>soundManager.play\<close> of
  windowsXPSounds.js returns false for every sound other than \<^verbatim>\<open>critical\<close> and leaves the
  page as it is, so it starts nothing; for \<^verbatim>\<open>critical\<close> the flag is overridden: the sound is
  started exactly when the manager is enabled, the audio element works and the volume is
  between 0 and 1.  A click on a close button sets the flag and registers the timer that
  clears it 1000 ms later: after 1000 ms the flag is clear, and when no earlier reset timer
  is pending it stays set for the whole 1000 ms.  \<^verbatim>\<open>SoundManager.play\<close> hands the sounds
  that \<^verbatim>\<open>window.soundManager\<close> knows to it, and these are refused in the same way; a sound
  that only the \<^verbatim>\<open>SoundManager\<close> knows is played from its own audio element and never looks
  at the flag.

  The claim as stated concludes that no sound other than \<^verbatim>\<open>critical\<close> is played in the
  prevention window.  Right after a close click \<^verbatim>\<open>SoundManager.play('windowClose')\<close>
  returns true and starts its sound.
\<close>

theorem prevention_blocks_all_but_critical:
  "(preventAllSounds s \<and> soundName \<noteq> ''critical'' \<longrightarrow> xp_play soundName volume s = (False, s))
   \<and> xp_play ''critical'' volume s
       = (if xp_enabled s \<and> xp_sounds s ''critical'' = Some Working \<and> 0 \<le> volume \<and> volume \<le> 1
          then (True, s\<lparr>played := played s @ [(''critical'', volume)]\<rparr>) else (False, s))
   \<and> (preventAllSounds s \<and> soundName \<noteq> ''critical'' \<and> xp_present s \<and> xp_sounds s soundName \<noteq> None
        \<longrightarrow> sm_play soundName volume s = (False, s))
   \<and> (\<not> xp_present s \<or> xp_sounds s soundName = None
        \<longrightarrow> sm_play soundName volume s
            = (if sm_enabled s \<and> sm_sounds s soundName = Some Working \<and> 0 \<le> volume \<and> volume \<le> 1
               then (True, s\<lparr>played := played s @ [(soundName, volume)]\<rparr>) else (False, s)))
   \<and> preventAllSounds (closeButton_click h s)
   \<and> (clock s + 1000, ResetCloseFlags) \<in> set (timers (closeButton_click h s))
   \<and> \<not> preventAllSounds (advance 1000 (closeButton_click h s))
   \<and> ((\<forall>t\<in>set (timers s). snd t \<noteq> ResetCloseFlags) \<and> dt < 1000
        \<longrightarrow> preventAllSounds (advance dt (closeButton_click h s)))"
proof (intro conjI impI)
  show "xp_play soundName volume s = (False, s)"
    if "preventAllSounds s \<and> soundName \<noteq> ''critical''"
    using that by (simp add: xp_play_def)
  show "xp_play ''critical'' volume s
       = (if xp_enabled s \<and> xp_sounds s ''critical'' = Some Working \<and> 0 \<le> volume \<and> volume \<le> 1
          then (True, s\<lparr>played := played s @ [(''critical'', volume)]\<rparr>) else (False, s))"
    by (simp add: xp_play_eq plays_xp_def)
  show "sm_play soundName volume s = (False, s)"
    if "preventAllSounds s \<and> soundName \<noteq> ''critical'' \<and> xp_present s \<and> xp_sounds s soundName \<noteq> None"
    using that by (simp add: sm_play_eq plays_sm_def plays_xp_def)
  show "sm_play soundName volume s
            = (if sm_enabled s \<and> sm_sounds s soundName = Some Working \<and> 0 \<le> volume \<and> volume \<le> 1
               then (True, s\<lparr>played := played s @ [(soundName, volume)]\<rparr>) else (False, s))"
    if "\<not> xp_present s \<or> xp_sounds s soundName = None"
    using that by (auto simp: sm_play_eq plays_sm_def)
  show "preventAllSounds (closeButton_click h s)"
    by (rule close_click_prevents)
  show tm: "(clock s + 1000, ResetCloseFlags) \<in> set (timers (closeButton_click h s))"
    by (rule close_click_timer)
  have clk: "clock (closeButton_click h s) = clock s"
    by (simp add: closeButton_click_def Let_def playSoundForWindow_def xp_play_eq xp_addActiveWindow_def)
  show "\<not> preventAllSounds (advance 1000 (closeButton_click h s))"
    unfolding advance_def by (rule reset_fires [OF tm]) (simp add: clk)
  show "preventAllSounds (advance dt (closeButton_click h s))"
    if "(\<forall>t\<in>set (timers s). snd t \<noteq> ResetCloseFlags) \<and> dt < 1000"
  proof -
    obtain ts where ts: "timers (closeButton_click h s) = timers s @ ts @ [(clock s + 1000, ResetCloseFlags)]"
        "\<forall>t\<in>set ts. snd t \<noteq> ResetCloseFlags"
      using close_click_timers by blast
    have q: "quiet_until (\<lambda>cb. cb = ResetCloseFlags) (clock s + 1000) (closeButton_click h s)"
      using that ts by (auto simp: quiet_until_def)
    have "preventAllSounds (run_until (clock (closeButton_click h s) + dt) (closeButton_click h s))
        \<and> quiet_until (\<lambda>cb. cb = ResetCloseFlags) (clock s + 1000)
            (run_until (clock (closeButton_click h s) + dt) (closeButton_click h s))"
      using q
    proof (rule run_until_preserves)
      show "clock (closeButton_click h s) + dt < clock s + 1000"
        using that by (simp add: clk)
      show "preventAllSounds (closeButton_click h s)" by (rule close_click_prevents)
    qed (simp_all add: fire_preventAllSounds)
    then show ?thesis by (simp add: advance_def)
  qed
qed

theorem prevention_blocks_all_but_critical_witness:
  "preventAllSounds (closeButton_click 0 loaded_page)
   \<and> xp_play ''notify'' 0.6 (closeButton_click 0 loaded_page) = (False, closeButton_click 0 loaded_page)
   \<and> sm_play ''notify'' 0.6 (closeButton_click 0 loaded_page) = (False, closeButton_click 0 loaded_page)
   \<and> fst (xp_play ''critical'' 0.6 (closeButton_click 0 loaded_page))
   \<and> xp_sounds (closeButton_click 0 loaded_page) ''maximize'' = None
   \<and> fst (sm_play ''maximize'' 0.6 (closeButton_click 0 loaded_page))
   \<and> preventAllSounds (advance 999 (closeButton_click 0 loaded_page))
   \<and> \<not> preventAllSounds (advance 1000 (closeButton_click 0 loaded_page))"
proof -
  let ?s = "closeButton_click 0 loaded_page"
  have f: "preventAllSounds ?s" "xp_present ?s" "xp_enabled ?s" "sm_enabled ?s"
    "xp_sounds ?s = xp_sound_table" "sm_sounds ?s = sm_sound_table"
    by (simp_all add: closeButton_click_def Let_def playSoundForWindow_def xp_play_eq
        xp_addActiveWindow_def loaded_page_def wmp_window_def)
  have t: "\<forall>t\<in>set (timers loaded_page). snd t \<noteq> ResetCloseFlags"
    by (simp add: loaded_page_fields)
  show ?thesis
    using f t prevention_blocks_all_but_critical [of ?s "''notify''" "0.6" 0 999]
      prevention_blocks_all_but_critical [of ?s "''maximize''" "0.6" 0 999]
      prevention_blocks_all_but_critical [of loaded_page "''notify''" "0.6" 0 999]
    by (simp add: xp_sound_table_def sm_sound_table_def)
qed

theorem prevention_blocks_all_but_critical_counterexample:
  "preventAllSounds (closeButton_click 0 loaded_page)
   \<and> fst (sm_play ''windowClose'' 0.5 (closeButton_click 0 loaded_page))
   \<and> played (snd (sm_play ''windowClose'' 0.5 (closeButton_click 0 loaded_page)))
       = [(''critical'', 0.6), (''windowClose'', 0.5)]
   \<and> playForWindow None ''windowClose'' 0.5 1000 (closeButton_click 0 loaded_page)
       = sm_play ''windowClose'' 0.5 (closeButton_click 0 loaded_page)"
  by (simp add: closeButton_click_def Let_def playSoundForWindow_def xp_play_eq xp_addActiveWindow_def
      playForWindow_def sm_play_eq plays_sm_def plays_xp_def
      loaded_page_def wmp_window_def xp_sound_table_def sm_sound_table_def)

end
